theory Spec2Isabelle
  imports Complex_Main "HOL-Library.While_Combinator"
begin

section \<open>Vectors and machine arithmetic\<close>

text \<open>
  The source works on \<open>glm\<close> vectors. A \<open>glm::vec3\<close> is a triple and a \<open>glm::vec4\<close> a
  quadruple; the integer and boolean vectors are the same shapes over \<open>int\<close> and \<open>bool\<close>.
  A \<open>float\<close> is modelled by an exact \<open>real\<close>: rounding is not represented. Where the
  source depends on a value being non-finite (\<open>SafeNormalize\<close>, the \<open>isfinite\<close> guard) the
  non-finite case is written out as \<open>None\<close>. A C++ \<open>int\<close> is an unbounded \<open>int\<close>.
  Component access with an index outside the vector is left unspecified.
\<close>

type_synonym vec3 = "real \<times> real \<times> real"
type_synonym vec4 = "real \<times> real \<times> real \<times> real"
type_synonym ivec3 = "int \<times> int \<times> int"
type_synonym ivec4 = "int \<times> int \<times> int \<times> int"
type_synonym bvec3 = "bool \<times> bool \<times> bool"
type_synonym bvec4 = "bool \<times> bool \<times> bool \<times> bool"

fun ix3 :: "'a \<times> 'a \<times> 'a \<Rightarrow> int \<Rightarrow> 'a" where
  "ix3 (a, b, c) i = (if i = 0 then a else if i = 1 then b else if i = 2 then c else undefined)"

fun set3 :: "'a \<times> 'a \<times> 'a \<Rightarrow> int \<Rightarrow> 'a \<Rightarrow> 'a \<times> 'a \<times> 'a" where
  "set3 (a, b, c) i v =
     (if i = 0 then (v, b, c) else if i = 1 then (a, v, c)
      else if i = 2 then (a, b, v) else undefined)"

fun ix4 :: "'a \<times> 'a \<times> 'a \<times> 'a \<Rightarrow> int \<Rightarrow> 'a" where
  "ix4 (a, b, c, d) i =
     (if i = 0 then a else if i = 1 then b else if i = 2 then c
      else if i = 3 then d else undefined)"

fun set4 :: "'a \<times> 'a \<times> 'a \<times> 'a \<Rightarrow> int \<Rightarrow> 'a \<Rightarrow> 'a \<times> 'a \<times> 'a \<times> 'a" where
  "set4 (a, b, c, d) i v =
     (if i = 0 then (v, b, c, d) else if i = 1 then (a, v, c, d)
      else if i = 2 then (a, b, v, d) else if i = 3 then (a, b, c, v) else undefined)"

text \<open>C++ integer division and remainder truncate towards zero.\<close>

definition tdiv :: "int \<Rightarrow> int \<Rightarrow> int" where
  "tdiv a b = sgn a * sgn b * (\<bar>a\<bar> div \<bar>b\<bar>)"

definition tmod :: "int \<Rightarrow> int \<Rightarrow> int" where
  "tmod a b = a - b * tdiv a b"

text \<open>\<open>glm::round\<close> rounds to the nearest integer, halves away from zero.\<close>

definition glm_round :: "real \<Rightarrow> int" where
  "glm_round x = (if 0 \<le> x then \<lfloor>x + 1 / 2\<rfloor> else - \<lfloor>- x + 1 / 2\<rfloor>)"

text \<open>\<open>glm::mix(x, y, a) = x * (1 - a) + y * a\<close>, on scalars and componentwise.\<close>

definition mix :: "real \<Rightarrow> real \<Rightarrow> real \<Rightarrow> real" where
  "mix x y a = x * (1 - a) + y * a"

fun mix3 :: "vec3 \<Rightarrow> vec3 \<Rightarrow> real \<Rightarrow> vec3" where
  "mix3 (x0, x1, x2) (y0, y1, y2) a = (mix x0 y0 a, mix x1 y1 a, mix x2 y2 a)"

fun mix4 :: "vec4 \<Rightarrow> vec4 \<Rightarrow> real \<Rightarrow> vec4" where
  "mix4 (x0, x1, x2, x3) (y0, y1, y2, y3) a =
     (mix x0 y0 a, mix x1 y1 a, mix x2 y2 a, mix x3 y3 a)"

text \<open>
  Abnormal ends of a run. \<open>LogicErr\<close> is a failed \<open>ASSERT(..., logicErr, ...)\<close>;
  \<open>OutOfRange\<close> is an access outside a \<open>Vec\<close> (\<open>back()\<close> of an empty one, an index past
  the end); \<open>Diverge\<close> is a recursion that does not come back within its bound.
\<close>

datatype fault = LogicErr | OutOfRange | Diverge

definition vat :: "'a list \<Rightarrow> int \<Rightarrow> fault + 'a" where
  "vat xs i = (if 0 \<le> i \<and> i < int (length xs) then Inr (xs ! nat i) else Inl OutOfRange)"

definition bnd :: "fault + 'a \<Rightarrow> ('a \<Rightarrow> fault + 'b) \<Rightarrow> fault + 'b" where
  "bnd m f = (case m of Inl e \<Rightarrow> Inl e | Inr x \<Rightarrow> f x)"

fun foldE :: "('a \<Rightarrow> 's \<Rightarrow> fault + 's) \<Rightarrow> 'a list \<Rightarrow> 's \<Rightarrow> fault + 's" where
  "foldE f [] s = Inr s"
| "foldE f (x # xs) s = bnd (f x s) (foldE f xs)"

section \<open>The triangle partition\<close>

text \<open>
  \<open>class Partition\<close>: the permutation \<open>idx\<close>, the sorted division counts, the barycentric
  points and the triangulation. The process-wide cache only stores what
  \<open>GetCachedPartition\<close> computes for a key, so the model computes it each time.
\<close>

record Partition =
  idx :: ivec3
  sortedDivisions :: ivec3
  vertBary :: "vec3 list"
  triVert :: "ivec3 list"

definition Next3 :: "int \<Rightarrow> int" where
  "Next3 i = ix3 (1, 2, 0) i"

definition InteriorOffset :: "Partition \<Rightarrow> int" where
  "InteriorOffset p =
     ix3 (sortedDivisions p) 0 + ix3 (sortedDivisions p) 1 + ix3 (sortedDivisions p) 2"

definition NumInterior :: "Partition \<Rightarrow> int" where
  "NumInterior p = int (length (vertBary p)) - InteriorOffset p"

text \<open>
  Every loop body is a function of its own, applied to the loop variable and the loop
  state; a \<open>for\<close> loop is a \<open>fold\<close> of it over the range of the loop variable.
\<close>

text \<open>\<open>PartitionFan\<close>: the loop over \<open>i < added\<close> carries \<open>(triVert, last)\<close>.\<close>

definition fan_step :: "int \<Rightarrow> int \<Rightarrow> int \<Rightarrow> ivec3 list \<times> int \<Rightarrow> ivec3 list \<times> int" where
  "fan_step edgeOffset apex i st =
     (case st of (tv, lastv) \<Rightarrow> (tv @ [(lastv, edgeOffset + i, apex)], edgeOffset + i))"

definition PartitionFan :: "ivec3 list \<Rightarrow> ivec3 \<Rightarrow> int \<Rightarrow> int \<Rightarrow> ivec3 list" where
  "PartitionFan tv cornerVerts added edgeOffset =
     (case fold (fan_step edgeOffset (ix3 cornerVerts 2)) [0..added - 1] (tv, ix3 cornerVerts 0) of
        (tv1, last1) \<Rightarrow> tv1 @ [(last1, ix3 cornerVerts 1, ix3 cornerVerts 2)])"

type_synonym pstate = "ivec3 list \<times> vec3 list"

definition GetEdgeVert :: "ivec4 \<Rightarrow> bvec4 \<Rightarrow> int \<Rightarrow> int \<Rightarrow> int" where
  "GetEdgeVert edgeOffsets edgeFwd edge i =
     ix4 edgeOffsets edge + (if ix4 edgeFwd edge then 1 else - 1) * i"

text \<open>The first loop of \<open>PartitionQuad\<close>: the state is \<open>(corner, last, maxEdge)\<close>.\<close>

definition scan_step :: "ivec4 \<Rightarrow> int \<Rightarrow> int \<times> int \<times> int \<Rightarrow> int \<times> int \<times> int" where
  "scan_step edgeAdded i st =
     (case st of (corner, lastv, maxEdge) \<Rightarrow>
        ((if corner = - 1 \<and> ix4 edgeAdded i = 0 \<and> ix4 edgeAdded lastv = 0 then i else corner),
         i,
         (if ix4 edgeAdded i > 0 then (if maxEdge = - 1 then i else - 2) else maxEdge)))"

definition quad_scan :: "ivec4 \<Rightarrow> int \<times> int \<times> int" where
  "quad_scan edgeAdded = fold (scan_step edgeAdded) [0, 1, 2, 3] (- 1, 3, - 1)"

text \<open>
  The terminal triangulation across the single subdivided edge \<open>maxEdge\<close>: a first
  triangle, then the two loops, each carrying \<open>(triVert, last)\<close>.
\<close>

definition strip_up :: "ivec4 \<Rightarrow> bvec4 \<Rightarrow> int \<Rightarrow> int \<Rightarrow> int \<Rightarrow> ivec3 list \<times> int \<Rightarrow> ivec3 list \<times> int" where
  "strip_up edgeOffsets edgeFwd maxEdge c3 i st =
     (case st of (tv, lastv) \<Rightarrow>
        (tv @ [(c3, lastv, GetEdgeVert edgeOffsets edgeFwd maxEdge i)],
         GetEdgeVert edgeOffsets edgeFwd maxEdge i))"

definition strip_down :: "ivec4 \<Rightarrow> bvec4 \<Rightarrow> int \<Rightarrow> int \<Rightarrow> int \<Rightarrow> ivec3 list \<times> int \<Rightarrow> ivec3 list \<times> int" where
  "strip_down edgeOffsets edgeFwd maxEdge c2 i st =
     (case st of (tv, lastv) \<Rightarrow>
        (tv @ [(c2, GetEdgeVert edgeOffsets edgeFwd maxEdge i, lastv)],
         GetEdgeVert edgeOffsets edgeFwd maxEdge i))"

definition quad_strip :: "ivec3 list \<Rightarrow> ivec4 \<Rightarrow> ivec4 \<Rightarrow> ivec4 \<Rightarrow> bvec4 \<Rightarrow> int \<Rightarrow> ivec3 list" where
  "quad_strip tv cornerVerts edgeOffsets edgeAdded edgeFwd maxEdge =
     (let e0 = tmod (0 + maxEdge) 4; e1 = tmod (1 + maxEdge) 4;
          e2 = tmod (2 + maxEdge) 4; e3 = tmod (3 + maxEdge) 4;
          middle = tdiv (ix4 edgeAdded maxEdge) 2;
          tv1 = tv @ [(ix4 cornerVerts e2, ix4 cornerVerts e3,
                       GetEdgeVert edgeOffsets edgeFwd maxEdge middle)];
          st2 = fold (strip_up edgeOffsets edgeFwd maxEdge (ix4 cornerVerts e3))
                     [0..middle] (tv1, ix4 cornerVerts e0);
          st3 = fold (strip_down edgeOffsets edgeFwd maxEdge (ix4 cornerVerts e2))
                     (rev [middle..ix4 edgeAdded maxEdge - 1]) (fst st2, ix4 cornerVerts e1)
      in fst st3)"

text \<open>
  The terminal fan from \<open>corner\<close> over the two far sides \<open>j = 1, 2\<close>; the state is
  \<open>(triVert, sideVert)\<close>.
\<close>

definition side_step :: "ivec4 \<Rightarrow> bvec4 \<Rightarrow> int \<Rightarrow> int \<Rightarrow> int \<Rightarrow> ivec3 list \<times> int \<Rightarrow> ivec3 list \<times> int" where
  "side_step edgeOffsets edgeFwd side c i st =
     (case st of (tv, sideVert) \<Rightarrow>
        (tv @ [(c, sideVert, GetEdgeVert edgeOffsets edgeFwd side i)],
         GetEdgeVert edgeOffsets edgeFwd side i))"

definition fan_side ::
  "ivec4 \<Rightarrow> ivec4 \<Rightarrow> ivec4 \<Rightarrow> bvec4 \<Rightarrow> int \<Rightarrow> int \<Rightarrow> ivec3 list \<times> int \<Rightarrow> ivec3 list \<times> int" where
  "fan_side cornerVerts edgeOffsets edgeAdded edgeFwd corner j st =
     (case st of (tv, sideVert) \<Rightarrow>
        let side = tmod (corner + j) 4;
            st1 = (if j = 2 \<and> ix4 edgeAdded side > 0
                   then (tv @ [(ix4 cornerVerts side, GetEdgeVert edgeOffsets edgeFwd side 0,
                                sideVert)], sideVert)
                   else (tv, ix4 cornerVerts side));
            st2 = fold (side_step edgeOffsets edgeFwd side (ix4 cornerVerts corner))
                       [0..ix4 edgeAdded side - 1] st1
        in if j = 2 \<or> ix4 edgeAdded side = 0
           then (fst st2 @ [(ix4 cornerVerts corner, snd st2,
                             ix4 cornerVerts (tmod (corner + j + 1) 4))], snd st2)
           else st2)"

definition quad_fan :: "ivec3 list \<Rightarrow> ivec4 \<Rightarrow> ivec4 \<Rightarrow> ivec4 \<Rightarrow> bvec4 \<Rightarrow> int \<Rightarrow> ivec3 list" where
  "quad_fan tv cornerVerts edgeOffsets edgeAdded edgeFwd corner =
     fst (fold (fan_side cornerVerts edgeOffsets edgeAdded edgeFwd corner) [1, 2]
               (tv, ix4 cornerVerts 0))"

text \<open>
  The recursive case. A row of \<open>added\<close> points is pushed between two corner points,
  which are read from \<open>vertBary\<close>; then the band below the row is partitioned by the
  recursive call \<open>rec\<close>. The row loop carries \<open>(triVert, vertBary)\<close> and the four
  \<open>new...\<close> vectors.
\<close>

type_synonym qloop = "pstate \<times> ivec4 \<times> ivec4 \<times> ivec4 \<times> bvec4"

definition push_step :: "int \<Rightarrow> int \<Rightarrow> int \<Rightarrow> int \<Rightarrow> vec3 list \<Rightarrow> fault + vec3 list" where
  "push_step c1 c2 added j vb =
     bnd (vat vb c1) (\<lambda>b1. bnd (vat vb c2) (\<lambda>b2.
       Inr (vb @ [mix3 b1 b2 ((of_int j + 1) / (of_int added + 1))])))"

definition push_row :: "vec3 list \<Rightarrow> int \<Rightarrow> int \<Rightarrow> int \<Rightarrow> fault + vec3 list" where
  "push_row vb c1 c2 added = foldE (push_step c1 c2 added) [0..added - 1] vb"

definition row_next :: "int \<Rightarrow> qloop \<Rightarrow> pstate \<Rightarrow> fault + qloop" where
  "row_next nextOffset1 q st =
     (case q of (st0, ncv, neo, nea, nef) \<Rightarrow>
        Inr (st,
             set4 (set4 ncv 0 (ix4 ncv 1)) 3 (ix4 ncv 2),
             set4 (set4 neo 0 nextOffset1) 3 (ix4 neo 1 + ix4 nea 1 - 1),
             set4 nea 3 (ix4 nea 1),
             set4 nef 3 False))"

definition quad_row ::
  "(pstate \<Rightarrow> ivec4 \<Rightarrow> ivec4 \<Rightarrow> ivec4 \<Rightarrow> bvec4 \<Rightarrow> fault + pstate) \<Rightarrow>
   ivec4 \<Rightarrow> ivec4 \<Rightarrow> bvec4 \<Rightarrow> int \<Rightarrow> int \<Rightarrow> qloop \<Rightarrow> fault + qloop" where
  "quad_row rec edgeOffsets edgeAdded edgeFwd partitions i q =
     (case q of ((tv, vb), newCornerVerts, newEdgeOffsets, newEdgeAdded, newEdgeFwd) \<Rightarrow>
        let cornerOffset1 = tdiv (ix4 edgeAdded 1 * i) partitions;
            cornerOffset3 = ix4 edgeAdded 3 - 1 - tdiv (ix4 edgeAdded 3 * i) partitions;
            nextOffset1 = GetEdgeVert edgeOffsets edgeFwd 1 (cornerOffset1 + 1);
            nextOffset3 = GetEdgeVert edgeOffsets edgeFwd 3 (cornerOffset3 + 1);
            added = glm_round (mix (of_int (ix4 edgeAdded 0)) (of_int (ix4 edgeAdded 2))
                                   (of_int i / of_int partitions));
            ncv = set4 (set4 newCornerVerts 1 (GetEdgeVert edgeOffsets edgeFwd 1 cornerOffset1))
                       2 (GetEdgeVert edgeOffsets edgeFwd 3 cornerOffset3);
            nea = set4 (set4 (set4 newEdgeAdded 0 (\<bar>nextOffset1 - ix4 newEdgeOffsets 0\<bar> - 1))
                             1 added)
                       2 (\<bar>nextOffset3 - ix4 newEdgeOffsets 2\<bar> - 1);
            neo = set4 (set4 newEdgeOffsets 1 (int (length vb))) 2 nextOffset3
        in bnd (push_row vb (ix4 ncv 1) (ix4 ncv 2) added) (\<lambda>vb1.
           bnd (rec (tv, vb1) ncv neo nea newEdgeFwd)
               (row_next nextOffset1 ((tv, vb1), ncv, neo, nea, newEdgeFwd))))"

definition quad_last ::
  "(pstate \<Rightarrow> ivec4 \<Rightarrow> ivec4 \<Rightarrow> ivec4 \<Rightarrow> bvec4 \<Rightarrow> fault + pstate) \<Rightarrow>
   ivec4 \<Rightarrow> ivec4 \<Rightarrow> ivec4 \<Rightarrow> bvec4 \<Rightarrow> qloop \<Rightarrow> fault + pstate" where
  "quad_last rec cornerVerts edgeOffsets edgeAdded edgeFwd q =
     (case q of (st1, ncv, neo, nea, nef) \<Rightarrow>
        let ncv' = set4 (set4 ncv 1 (ix4 cornerVerts 2)) 2 (ix4 cornerVerts 3);
            neo1 = set4 neo 1 (ix4 edgeOffsets 2);
            nea1 = set4 nea 0 (ix4 edgeAdded 1 - \<bar>ix4 neo1 0 - ix4 edgeOffsets 1\<bar>);
            nea2 = set4 nea1 1 (ix4 edgeAdded 2);
            nea3 = set4 nea2 2 (\<bar>ix4 neo1 2 - ix4 edgeOffsets 3\<bar> - 1);
            neo2 = set4 neo1 2 (ix4 edgeOffsets 3);
            nef' = set4 nef 1 (ix4 edgeFwd 2)
        in rec st1 ncv' neo2 nea3 nef')"

definition PartitionQuad_body ::
  "(pstate \<Rightarrow> ivec4 \<Rightarrow> ivec4 \<Rightarrow> ivec4 \<Rightarrow> bvec4 \<Rightarrow> fault + pstate) \<Rightarrow>
   pstate \<Rightarrow> ivec4 \<Rightarrow> ivec4 \<Rightarrow> ivec4 \<Rightarrow> bvec4 \<Rightarrow> fault + pstate" where
  "PartitionQuad_body rec st cornerVerts edgeOffsets edgeAdded edgeFwd =
     (if \<not> (ix4 edgeAdded 0 \<ge> 0 \<and> ix4 edgeAdded 1 \<ge> 0 \<and> ix4 edgeAdded 2 \<ge> 0 \<and> ix4 edgeAdded 3 \<ge> 0)
      then Inl LogicErr
      else
        let corner = fst (quad_scan edgeAdded); maxEdge = snd (snd (quad_scan edgeAdded)) in
        if corner \<ge> 0 then
          (if maxEdge \<ge> 0
           then Inr (quad_strip (fst st) cornerVerts edgeOffsets edgeAdded edgeFwd maxEdge, snd st)
           else Inr (quad_fan (fst st) cornerVerts edgeOffsets edgeAdded edgeFwd corner, snd st))
        else
          let partitions = 1 + min (ix4 edgeAdded 1) (ix4 edgeAdded 3);
              newCornerVerts = (ix4 cornerVerts 1, - 1, - 1, ix4 cornerVerts 0);
              newEdgeOffsets = (ix4 edgeOffsets 1, - 1,
                                GetEdgeVert edgeOffsets edgeFwd 3 (ix4 edgeAdded 3 + 1),
                                ix4 edgeOffsets 0);
              newEdgeAdded = (0, - 1, 0, ix4 edgeAdded 0);
              newEdgeFwd = (ix4 edgeFwd 1, True, ix4 edgeFwd 3, ix4 edgeFwd 0)
          in bnd (foldE (quad_row rec edgeOffsets edgeAdded edgeFwd partitions)
                        [1..partitions - 1]
                        (st, newCornerVerts, newEdgeOffsets, newEdgeAdded, newEdgeFwd))
                 (quad_last rec cornerVerts edgeOffsets edgeAdded edgeFwd))"

text \<open>
  \<open>PartitionQuad\<close> calls itself. The recursion is unfolded to a depth given by a counter;
  a run that would need more ends in \<open>Diverge\<close>.
\<close>

primrec PartitionQuad_fuel ::
  "nat \<Rightarrow> pstate \<Rightarrow> ivec4 \<Rightarrow> ivec4 \<Rightarrow> ivec4 \<Rightarrow> bvec4 \<Rightarrow> fault + pstate" where
  "PartitionQuad_fuel 0 = (\<lambda>st cornerVerts edgeOffsets edgeAdded edgeFwd. Inl Diverge)"
| "PartitionQuad_fuel (Suc k) = PartitionQuad_body (PartitionQuad_fuel k)"

definition quad_depth :: "ivec4 \<Rightarrow> nat" where
  "quad_depth edgeAdded =
     nat (2 * (max (ix4 edgeAdded 0) (ix4 edgeAdded 2) + max (ix4 edgeAdded 1) (ix4 edgeAdded 3)) + 2)"

text \<open>
  The depth that \<open>PartitionQuad\<close> is given: twice the larger of each pair of opposite sides,
  plus two. That this is enough for every call is proved below.
\<close>

definition PartitionQuad :: "pstate \<Rightarrow> ivec4 \<Rightarrow> ivec4 \<Rightarrow> ivec4 \<Rightarrow> bvec4 \<Rightarrow> fault + pstate" where
  "PartitionQuad st cornerVerts edgeOffsets edgeAdded edgeFwd =
     PartitionQuad_fuel (quad_depth edgeAdded) st cornerVerts edgeOffsets edgeAdded edgeFwd"

text \<open>The three corners and the points inserted along the three edges.\<close>

definition edge_bary_step :: "ivec3 \<Rightarrow> int \<Rightarrow> vec3 \<Rightarrow> int \<Rightarrow> vec3 list \<Rightarrow> vec3 list" where
  "edge_bary_step n i nextBary j vb =
     vb @ [mix3 (vb ! nat i) nextBary (of_int j / of_int (ix3 n i))]"

definition edge_bary_edge :: "ivec3 \<Rightarrow> int \<Rightarrow> vec3 list \<Rightarrow> vec3 list" where
  "edge_bary_edge n i vb =
     fold (edge_bary_step n i (vb ! nat (tmod (i + 1) 3))) [1..ix3 n i - 1] vb"

definition edge_barys :: "ivec3 \<Rightarrow> vec3 list" where
  "edge_barys n = fold (edge_bary_edge n) [0, 1, 2] [(1, 0, 0), (0, 1, 0), (0, 0, 1)]"

text \<open>
  \<open>GetCachedPartition\<close> on a cache miss. The input is meant to be sorted,
  \<open>n[0] \<ge> n[1] \<ge> n[2] > 0\<close>. In the obtuse case the square root of a negative number is
  a NaN, which \<open>glm::max(1., NaN)\<close> turns into \<open>1\<close>. The \<open>idx\<close> field is not set here.
\<close>

definition mk_partition :: "ivec3 \<Rightarrow> pstate \<Rightarrow> fault + Partition" where
  "mk_partition n st =
     Inr \<lparr>idx = undefined, sortedDivisions = n, vertBary = snd st, triVert = fst st\<rparr>"

definition split_step :: "vec3 \<Rightarrow> int \<Rightarrow> int \<Rightarrow> vec3 list \<Rightarrow> vec3 list" where
  "split_step middleBary nh j vb = vb @ [mix3 (vb ! 2) middleBary (of_int j / of_int nh)]"

definition obtuse_rest ::
  "ivec3 \<Rightarrow> int \<Rightarrow> int \<Rightarrow> int \<Rightarrow> int \<Rightarrow> int \<Rightarrow> pstate \<Rightarrow> fault + Partition" where
  "obtuse_rest n ns nh hOffset eo0 eo2 st =
     (if ix3 n 2 = 1 then
        mk_partition n (PartitionFan (fst st) (0, eo0 + ns - 1, 2) (ns - 1) eo0, snd st)
      else if ns = 1 then
        bnd (PartitionQuad (fst st @ [(hOffset, 2, eo2)], snd st)
               (hOffset, eo2, 0, eo0) (- 1, eo2 + 1, - 1, hOffset + nh - 2)
               (0, ix3 n 2 - 2, ns - 1, nh - 2) (True, True, True, False))
            (mk_partition n)
      else
        bnd (PartitionQuad (fst st @ [(hOffset - 1, 0, eo0)], snd st)
               (hOffset - 1, eo0, eo0 + ns - 1, 2)
               (- 1, eo0 + 1, hOffset + nh - 2, eo2)
               (0, ns - 2, nh - 1, ix3 n 2 - 2) (True, True, False, True))
            (mk_partition n))"

definition obtuse_split ::
  "ivec3 \<Rightarrow> vec3 list \<Rightarrow> int \<Rightarrow> int \<Rightarrow> int \<Rightarrow> int \<Rightarrow> int \<Rightarrow> vec3 \<Rightarrow> fault + Partition" where
  "obtuse_split n vb ns nh eo0 eo1 eo2 middleBary =
     (let hOffset = int (length vb);
          vb1 = fold (split_step middleBary nh) [1..nh - 1] vb
      in bnd (PartitionQuad ([(eo1 - 1, 1, eo1)], vb1)
                (eo1 - 1, eo1, 2, eo0 + ns - 1) (- 1, eo1 + 1, hOffset, eo0 + ns)
                (0, ix3 n 1 - 2, nh - 1, ix3 n 0 - ns - 2) (True, True, True, True))
             (obtuse_rest n ns nh hOffset eo0 eo2))"

definition GetCachedPartition :: "ivec3 \<Rightarrow> fault + Partition" where
  "GetCachedPartition n =
     (let n0 = ix3 n 0; n1 = ix3 n 1; n2 = ix3 n 2;
          vb = edge_barys n;
          eo0 = 3; eo1 = 3 + n0 - 1; eo2 = 3 + n0 - 1 + n1 - 1;
          f = (of_int (n2 * n2 + n0 * n0) :: real)
      in if n1 = 1 then
           (if n0 = 1 then mk_partition n ([(0, 1, 2)], vb)
            else mk_partition n (PartitionFan [] (0, 1, 2) (n0 - 1) eo0, vb))
         else if of_int (n1 * n1) > f - sqrt 2 * of_int n0 * of_int n2 then
           bnd (PartitionQuad ([(eo1 - 1, 1, eo1)], vb)
                  (eo1 - 1, eo1, 2, 0) (- 1, eo1 + 1, eo2, eo0)
                  (0, n1 - 2, n2 - 1, n0 - 2) (True, True, True, True))
               (mk_partition n)
         else
           let ns = min (n0 - 2) (glm_round ((f - of_int (n1 * n1)) / of_int (2 * n0)));
               nh = (if n2 * n2 - ns * ns < 0 then 1
                     else max 1 (glm_round (sqrt (of_int (n2 * n2 - ns * ns)))))
           in bnd (vat vb (eo0 + ns - 1)) (obtuse_split n vb ns nh eo0 eo1 eo2))"

definition swap3 :: "'a \<times> 'a \<times> 'a \<Rightarrow> int \<Rightarrow> int \<Rightarrow> 'a \<times> 'a \<times> 'a" where
  "swap3 v i j = set3 (set3 v i (ix3 v j)) j (ix3 v i)"

definition sort_divisions :: "ivec3 \<Rightarrow> ivec3 \<times> ivec3" where
  "sort_divisions divisions =
     (let st1 = (if ix3 divisions 2 > ix3 divisions 1
                 then (swap3 divisions 2 1, swap3 (0, 1, 2) 2 1)
                 else (divisions, (0, 1, 2)))
      in if ix3 (fst st1) 1 > ix3 (fst st1) 0
         then (let s2 = swap3 (fst st1) 1 0; t2 = swap3 (snd st1) 1 0
               in if ix3 s2 2 > ix3 s2 1 then (swap3 s2 2 1, swap3 t2 2 1) else (s2, t2))
         else st1)"

definition set_idx :: "ivec3 \<Rightarrow> Partition \<Rightarrow> fault + Partition" where
  "set_idx triIdx p = Inr (p\<lparr>idx := triIdx\<rparr>)"

definition GetPartition :: "ivec3 \<Rightarrow> fault + Partition" where
  "GetPartition divisions =
     bnd (GetCachedPartition (fst (sort_divisions divisions)))
         (set_idx (snd (sort_divisions divisions)))"

fun mapE :: "('a \<Rightarrow> fault + 'b) \<Rightarrow> 'a list \<Rightarrow> fault + 'b list" where
  "mapE f [] = Inr []"
| "mapE f (x # xs) = bnd (f x) (\<lambda>y. bnd (mapE f xs) (\<lambda>ys. Inr (y # ys)))"

text \<open>
  \<open>Reindex\<close>: \<open>newVerts\<close> lists the global id of every vertex of the partition; each
  triangle is rewritten through it. All three slots of an output triangle are written,
  so the value a fresh triple starts from does not show.
\<close>

definition edge_vert_step :: "bool \<Rightarrow> int \<Rightarrow> int list \<times> int \<Rightarrow> int list \<times> int" where
  "edge_vert_step fwd j st =
     (case st of (nv, offset) \<Rightarrow> (nv @ [offset], offset + (if fwd then 1 else - 1)))"

definition edge_verts :: "Partition \<Rightarrow> ivec3 \<Rightarrow> bvec3 \<Rightarrow> int \<Rightarrow> int list \<Rightarrow> int list" where
  "edge_verts p edgeOffsets edgeFwd i nv =
     (let n = ix3 (sortedDivisions p) i - 1;
          fwd = ix3 edgeFwd (ix3 (idx p) i);
          offset = ix3 edgeOffsets (ix3 (idx p) i) + (if fwd then 0 else n - 1)
      in fst (fold (edge_vert_step fwd) [0..n - 1] (nv, offset)))"

definition interior_vert :: "int \<Rightarrow> int \<Rightarrow> int list \<Rightarrow> int list" where
  "interior_vert offset i nv = nv @ [i + offset]"

definition Reindex_newVerts :: "Partition \<Rightarrow> ivec3 \<Rightarrow> ivec3 \<Rightarrow> bvec3 \<Rightarrow> int \<Rightarrow> int list" where
  "Reindex_newVerts p tri3 edgeOffsets edgeFwd0 interiorOffset =
     (let flip = (ix3 (idx p) 1 \<noteq> Next3 (ix3 (idx p) 0));
          triIdx = (if flip then (ix3 (idx p) 2, ix3 (idx p) 0, ix3 (idx p) 1) else idx p);
          edgeFwd = (if flip then (\<not> ix3 edgeFwd0 0, \<not> ix3 edgeFwd0 1, \<not> ix3 edgeFwd0 2)
                     else edgeFwd0);
          nv0 = [ix3 tri3 (ix3 triIdx 0), ix3 tri3 (ix3 triIdx 1), ix3 tri3 (ix3 triIdx 2)];
          nv1 = fold (edge_verts p edgeOffsets edgeFwd) [0, 1, 2] nv0
      in fold (interior_vert (interiorOffset - int (length nv1)))
              [int (length nv1)..int (length (vertBary p)) - 1] nv1)"

definition reindex_slot :: "int list \<Rightarrow> ivec3 \<Rightarrow> ivec3 \<Rightarrow> int \<Rightarrow> ivec3 \<Rightarrow> fault + ivec3" where
  "reindex_slot newVerts outTri t j out =
     bnd (vat newVerts (ix3 t j)) (\<lambda>v. Inr (set3 out (ix3 outTri j) v))"

definition reindex_tri :: "int list \<Rightarrow> ivec3 \<Rightarrow> ivec3 \<Rightarrow> fault + ivec3" where
  "reindex_tri newVerts outTri t = foldE (reindex_slot newVerts outTri t) [0, 1, 2] (0, 0, 0)"

definition Reindex :: "Partition \<Rightarrow> ivec3 \<Rightarrow> ivec3 \<Rightarrow> bvec3 \<Rightarrow> int \<Rightarrow> fault + ivec3 list" where
  "Reindex p tri3 edgeOffsets edgeFwd interiorOffset =
     mapE (reindex_tri (Reindex_newVerts p tri3 edgeOffsets edgeFwd interiorOffset)
             (if ix3 (idx p) 1 \<noteq> Next3 (ix3 (idx p) 0) then (1, 0, 2) else (0, 1, 2)))
          (triVert p)"

section \<open>The mesh\<close>

text \<open>
  \<open>Halfedge\<close>, \<open>TriRef\<close>, \<open>Barycentric\<close>, \<open>TmpEdge\<close>, \<open>Smoothness\<close> and the fields of
  \<open>Manifold::Impl\<close> that the smoothing code reads and writes. Field names that two
  structs share are told apart by a prefix (\<open>refTri\<close> is \<open>TriRef::tri\<close>, \<open>btri\<close> is
  \<open>Barycentric::tri\<close>, \<open>relOriginalID\<close> is \<open>MeshRelationD::originalID\<close>, \<open>sHalfedge\<close> is
  \<open>Smoothness::halfedge\<close>), and the trailing underscore of the member names is dropped.
\<close>

record Halfedge =
  startVert :: int
  endVert :: int
  pairedHalfedge :: int
  face :: int

record TriRef =
  meshID :: int
  originalID :: int
  refTri :: int

record Barycentric =
  btri :: int
  uvw :: vec3

record TmpEdge =
  first :: int
  second :: int
  halfedgeIdx :: int

record Smoothness =
  sHalfedge :: int
  smoothness :: real

record MeshRelationD =
  relOriginalID :: int
  numProp :: int
  properties :: "real list"
  triRef :: "TriRef list"
  triProperties :: "ivec3 list"

record Impl =
  vertPos :: "vec3 list"
  halfedge :: "Halfedge list"
  vertNormal :: "vec3 list"
  faceNormal :: "vec3 list"
  halfedgeTangent :: "vec4 list"
  meshRelation :: MeshRelationD

text \<open>
  Reads and writes of the mesh arrays. A well-formed mesh keeps every index in range;
  outside the range the source has no defined result, and the model leaves the value
  unspecified.
\<close>

definition rd :: "'a list \<Rightarrow> int \<Rightarrow> 'a" where
  "rd xs i = (if 0 \<le> i \<and> i < int (length xs) then xs ! nat i else undefined)"

definition wr :: "'a list \<Rightarrow> int \<Rightarrow> 'a \<Rightarrow> 'a list" where
  "wr xs i v = (if 0 \<le> i \<and> i < int (length xs) then xs[nat i := v] else undefined)"

text \<open>
  The accessors of \<open>Manifold::Impl\<close> and the small helpers that the file under study
  calls and that are declared in headers outside it: \<open>NumVert\<close>, \<open>NumTri\<close>, \<open>NumProp\<close>,
  \<open>NumPropVert\<close>, \<open>IsEmpty\<close>, \<open>NextHalfedge\<close>, \<open>Halfedge::IsForward\<close> and
  \<open>TriRef::SameFace\<close>.
\<close>

definition NumVert :: "Impl \<Rightarrow> int" where
  "NumVert m = int (length (vertPos m))"

definition NumTri :: "Impl \<Rightarrow> int" where
  "NumTri m = tdiv (int (length (halfedge m))) 3"

definition NumProp :: "Impl \<Rightarrow> int" where
  "NumProp m = numProp (meshRelation m)"

definition NumPropVert :: "Impl \<Rightarrow> int" where
  "NumPropVert m =
     (if NumProp m = 0 then NumVert m
      else tdiv (int (length (properties (meshRelation m)))) (NumProp m))"

definition IsEmpty :: "Impl \<Rightarrow> bool" where
  "IsEmpty m = (NumVert m = 0)"

definition NextHalfedge :: "int \<Rightarrow> int" where
  "NextHalfedge current = (let c = current + 1 in if tmod c 3 = 0 then c - 3 else c)"

text \<open>Modelled from the spec: \<open>IsForward()\<close> means \<open>startVert < endVert\<close>.\<close>

definition IsForward :: "Halfedge \<Rightarrow> bool" where
  "IsForward h = (startVert h < endVert h)"

text \<open>
  Modelled from the spec: \<open>SameFace(other)\<close> holds when both references name the same
  original source face, that is the same mesh and the same face of it.
\<close>

definition SameFace :: "TriRef \<Rightarrow> TriRef \<Rightarrow> bool" where
  "SameFace a b = (meshID a = meshID b \<and> refTri a = refTri b)"

subsection \<open>Vector operations\<close>

fun vadd :: "vec3 \<Rightarrow> vec3 \<Rightarrow> vec3" where
  "vadd (a0, a1, a2) (b0, b1, b2) = (a0 + b0, a1 + b1, a2 + b2)"

fun vsub :: "vec3 \<Rightarrow> vec3 \<Rightarrow> vec3" where
  "vsub (a0, a1, a2) (b0, b1, b2) = (a0 - b0, a1 - b1, a2 - b2)"

fun smul :: "real \<Rightarrow> vec3 \<Rightarrow> vec3" where
  "smul k (a0, a1, a2) = (k * a0, k * a1, k * a2)"

fun sdiv3 :: "vec3 \<Rightarrow> real \<Rightarrow> vec3" where
  "sdiv3 (a0, a1, a2) k = (a0 / k, a1 / k, a2 / k)"

fun dot :: "vec3 \<Rightarrow> vec3 \<Rightarrow> real" where
  "dot (a0, a1, a2) (b0, b1, b2) = a0 * b0 + a1 * b1 + a2 * b2"

fun cross :: "vec3 \<Rightarrow> vec3 \<Rightarrow> vec3" where
  "cross (a0, a1, a2) (b0, b1, b2) = (a1 * b2 - b1 * a2, a2 * b0 - b2 * a0, a0 * b1 - b0 * a1)"

definition vlength :: "vec3 \<Rightarrow> real" where
  "vlength v = sqrt (dot v v)"

text \<open>
  \<open>glm::normalize(v)\<close> is \<open>v * inversesqrt(dot(v, v))\<close>: for the zero vector that is
  \<open>0 * inf\<close>, a NaN in every component, here \<open>None\<close>. \<open>SafeNormalize\<close> (declared outside
  the file; the spec: zero-length edges make \<open>SafeNormalize\<close> return zero) replaces a
  non-finite result by the zero vector.
\<close>

definition glm_normalize :: "vec3 \<Rightarrow> vec3 option" where
  "glm_normalize v = (if dot v v = 0 then None else Some (smul (1 / sqrt (dot v v)) v))"

definition SafeNormalize :: "vec3 \<Rightarrow> vec3" where
  "SafeNormalize v = (case glm_normalize v of None \<Rightarrow> (0, 0, 0) | Some u \<Rightarrow> u)"

definition degrees :: "real \<Rightarrow> real" where
  "degrees x = x * 180 / pi"

definition radians :: "real \<Rightarrow> real" where
  "radians x = x * pi / 180"

subsection \<open>Flat faces\<close>

text \<open>
  \<open>FlatFaces\<close>: the kernel run for every triangle only ever sets entries to \<open>true\<close>, so
  the order of the runs does not show; the model runs them in index order. The first
  inner loop carries \<open>(faceNeighbors, faceTris)\<close>.
\<close>

definition neighbor_step :: "Impl \<Rightarrow> int \<Rightarrow> int \<Rightarrow> int \<times> ivec3 \<Rightarrow> int \<times> ivec3" where
  "neighbor_step m t j st =
     (case st of (faceNeighbors, faceTris) \<Rightarrow>
        let neighborTri = face (rd (halfedge m) (pairedHalfedge (rd (halfedge m) (3 * t + j))))
        in if SameFace (rd (triRef (meshRelation m)) neighborTri) (rd (triRef (meshRelation m)) t)
           then (faceNeighbors + 1, set3 faceTris j neighborTri)
           else (faceNeighbors, faceTris))"

definition flat_neighbors :: "Impl \<Rightarrow> int \<Rightarrow> int \<times> ivec3" where
  "flat_neighbors m t = fold (neighbor_step m t) [0, 1, 2] (0, (- 1, - 1, - 1))"

definition mark_step :: "ivec3 \<Rightarrow> int \<Rightarrow> bool list \<Rightarrow> bool list" where
  "mark_step faceTris j fl = (if ix3 faceTris j \<ge> 0 then wr fl (ix3 faceTris j) True else fl)"

definition FlatFaces_tri :: "Impl \<Rightarrow> int \<Rightarrow> bool list \<Rightarrow> bool list" where
  "FlatFaces_tri m t triIsFlatFace =
     (if fst (flat_neighbors m t) > 1
      then fold (mark_step (snd (flat_neighbors m t))) [0, 1, 2] (wr triIsFlatFace t True)
      else triIsFlatFace)"

definition FlatFaces :: "Impl \<Rightarrow> bool list" where
  "FlatFaces m =
     fold (FlatFaces_tri m) [0..NumTri m - 1] (replicate (nat (NumTri m)) False)"

text \<open>\<open>VertFlatFace\<close>: the state is \<open>(vertFlatFace, vertRef)\<close>.\<close>

definition vff_step :: "Impl \<Rightarrow> int \<Rightarrow> int \<Rightarrow> int list \<times> TriRef list \<Rightarrow> int list \<times> TriRef list" where
  "vff_step m t j st =
     (case st of (vertFlatFace, vertRef) \<Rightarrow>
        let vert = startVert (rd (halfedge m) (3 * t + j))
        in if SameFace (rd vertRef vert) (rd (triRef (meshRelation m)) t) then st
           else (wr vertFlatFace vert (if rd vertFlatFace vert = - 1 then t else - 2),
                 wr vertRef vert (rd (triRef (meshRelation m)) t)))"

definition vff_tri :: "Impl \<Rightarrow> bool list \<Rightarrow> int \<Rightarrow> int list \<times> TriRef list \<Rightarrow> int list \<times> TriRef list" where
  "vff_tri m flatFaces t st = (if rd flatFaces t then fold (vff_step m t) [0, 1, 2] st else st)"

definition VertFlatFace :: "Impl \<Rightarrow> bool list \<Rightarrow> int list" where
  "VertFlatFace m flatFaces =
     fst (fold (vff_tri m flatFaces) [0..NumTri m - 1]
            (replicate (nat (NumVert m)) (- 1),
             replicate (nat (NumVert m)) \<lparr>meshID = - 1, originalID = - 1, refTri = - 1\<rparr>))"

subsection \<open>Loops that walk round a vertex\<close>

text \<open>
  A \<open>do { ... } while (c)\<close> loop runs its body once and then while \<open>c\<close> holds. A walk
  round a vertex ends when it is back at its first half-edge; on a mesh whose pairing is
  broken it may never be, and then the loop has no result (\<open>None\<close>).
\<close>

definition do_while :: "('s \<Rightarrow> 's) \<Rightarrow> ('s \<Rightarrow> bool) \<Rightarrow> 's \<Rightarrow> 's option" where
  "do_while body c s = while_option c body (body s)"

fun foldO :: "('a \<Rightarrow> 's \<Rightarrow> 's option) \<Rightarrow> 'a list \<Rightarrow> 's \<Rightarrow> 's option" where
  "foldO f [] s = Some s"
| "foldO f (x # xs) s = (case f x s of None \<Rightarrow> None | Some s' \<Rightarrow> foldO f xs s')"

definition around :: "Impl \<Rightarrow> int \<Rightarrow> int" where
  "around m current = NextHalfedge (pairedHalfedge (rd (halfedge m) current))"

subsection \<open>SetNormals\<close>

text \<open>
  \<open>SetNormals\<close> changes three members of \<open>meshRelation_\<close>: \<open>numProp\<close>, which is set once,
  and \<open>properties\<close> and \<open>triProperties\<close>, which the loops write. The loops of the model
  carry the pair \<open>(properties, triProperties)\<close>; everything else is read from the mesh
  \<open>m\<close> as it was on entry.
\<close>

type_synonym ptabs = "real list \<times> ivec3 list"

definition set_triProp :: "ivec3 list \<Rightarrow> int \<Rightarrow> int \<Rightarrow> int \<Rightarrow> ivec3 list" where
  "set_triProp tp t j v = wr tp t (set3 (rd tp t) j v)"

definition dihedral :: "Impl \<Rightarrow> int \<Rightarrow> int \<Rightarrow> real" where
  "dihedral m t1 t2 = degrees (arccos (dot (rd (faceNormal m) t1) (rd (faceNormal m) t2)))"

text \<open>
  The test on two faces next to each other that is not the dihedral angle: one is part
  of a flat face and the other is not, or they are parts of two flat faces.
\<close>

definition faceSplit :: "Impl \<Rightarrow> bool list \<Rightarrow> int \<Rightarrow> int \<Rightarrow> bool" where
  "faceSplit m triIsFlatFace t1 t2 =
     (rd triIsFlatFace t1 \<noteq> rd triIsFlatFace t2 \<or>
      (rd triIsFlatFace t1 \<and> rd triIsFlatFace t2 \<and>
       \<not> SameFace (rd (triRef (meshRelation m)) t1) (rd (triRef (meshRelation m)) t2)))"

text \<open>The test that ends a group of faces in a walk.\<close>

definition face_break :: "Impl \<Rightarrow> bool list \<Rightarrow> real \<Rightarrow> int \<Rightarrow> int \<Rightarrow> bool" where
  "face_break m triIsFlatFace minSharpAngle f prevFace =
     (dihedral m f prevFace > minSharpAngle \<or> faceSplit m triIsFlatFace f prevFace)"

definition incr :: "int list \<Rightarrow> int \<Rightarrow> int list" where
  "incr xs i = wr xs i (rd xs i + 1)"

definition sharp_step :: "Impl \<Rightarrow> bool list \<Rightarrow> int list \<Rightarrow> real \<Rightarrow> int \<Rightarrow> int list \<Rightarrow> int list" where
  "sharp_step m triIsFlatFace vertFlatFace minSharpAngle e vns =
     (if \<not> IsForward (rd (halfedge m) e) then vns
      else
        let h = rd (halfedge m) e;
            tri1 = tdiv e 3;
            tri2 = tdiv (pairedHalfedge h) 3
        in if dihedral m tri1 tri2 > minSharpAngle
           then incr (incr vns (startVert h)) (endVert h)
           else
             let vns1 = (if rd vertFlatFace (startVert h) = - 2 \<and> faceSplit m triIsFlatFace tri1 tri2
                         then incr vns (startVert h) else vns)
             in (if rd vertFlatFace (endVert h) = - 2 \<and> faceSplit m triIsFlatFace tri1 tri2
                 then incr vns1 (endVert h) else vns1))"

definition vertNumSharp_of :: "Impl \<Rightarrow> bool list \<Rightarrow> int list \<Rightarrow> real \<Rightarrow> int list" where
  "vertNumSharp_of m triIsFlatFace vertFlatFace minSharpAngle =
     fold (sharp_step m triIsFlatFace vertFlatFace minSharpAngle)
          [0..int (length (halfedge m)) - 1] (replicate (nat (NumVert m)) 0)"

text \<open>
  \<open>std::copy\<close> of one row of the old property table into the new one, and the three
  writes of a normal into a row.
\<close>

definition copy_step :: "real list \<Rightarrow> int \<Rightarrow> int \<Rightarrow> int \<Rightarrow> real list \<Rightarrow> real list" where
  "copy_step oldProperties src dst k p = wr p (dst + k) (rd oldProperties (src + k))"

definition copy_row :: "real list \<Rightarrow> int \<Rightarrow> int \<Rightarrow> int \<Rightarrow> int \<Rightarrow> real list \<Rightarrow> real list" where
  "copy_row oldProperties oldNumProp src np dst props =
     fold (copy_step oldProperties (src * oldNumProp) (dst * np)) [0..oldNumProp - 1] props"

definition normal_step :: "int \<Rightarrow> vec3 \<Rightarrow> int \<Rightarrow> real list \<Rightarrow> real list" where
  "normal_step base normal i p = wr p (base + i) (ix3 normal i)"

definition write_normal :: "int \<Rightarrow> int \<Rightarrow> int \<Rightarrow> vec3 \<Rightarrow> real list \<Rightarrow> real list" where
  "write_normal np normalIdx prop normal props =
     fold (normal_step (prop * np + normalIdx) normal) [0, 1, 2] props"

definition update_row ::
  "real list \<Rightarrow> int \<Rightarrow> int \<Rightarrow> int \<Rightarrow> int \<Rightarrow> int \<Rightarrow> vec3 \<Rightarrow> real list \<Rightarrow> real list" where
  "update_row oldProperties oldNumProp np normalIdx src dst normal props =
     write_normal np normalIdx dst normal (copy_row oldProperties oldNumProp src np dst props)"

text \<open>The walk of a smooth vertex; the state is \<open>(current, lastProp, tables)\<close>.\<close>

definition smooth_step ::
  "Impl \<Rightarrow> real list \<Rightarrow> ivec3 list \<Rightarrow> int \<Rightarrow> int \<Rightarrow> int \<Rightarrow> vec3 \<Rightarrow>
   int \<times> int \<times> ptabs \<Rightarrow> int \<times> int \<times> ptabs" where
  "smooth_step m oldProperties oldTriProp oldNumProp np normalIdx normal st =
     (case st of (current0, lastProp, props, tprops) \<Rightarrow>
        let current = around m current0;
            thisTri = tdiv current 3;
            j = current - 3 * thisTri;
            prop = ix3 (rd oldTriProp thisTri) j
        in if prop = lastProp then (current, lastProp, props, set_triProp tprops thisTri j prop)
           else (current, prop,
                 update_row oldProperties oldNumProp np normalIdx prop prop normal props,
                 set_triProp tprops thisTri j prop))"

text \<open>
  The first walk of a creased vertex stops in front of the first group boundary; the
  state is \<open>(current, prevFace, stopped)\<close>.
\<close>

definition seek_step :: "Impl \<Rightarrow> bool list \<Rightarrow> real \<Rightarrow> int \<times> int \<times> bool \<Rightarrow> int \<times> int \<times> bool" where
  "seek_step m triIsFlatFace minSharpAngle st =
     (case st of (current, prevFace, stopped) \<Rightarrow>
        if face_break m triIsFlatFace minSharpAngle
             (face (rd (halfedge m) (around m current))) prevFace
        then (current, prevFace, True)
        else (around m current, face (rd (halfedge m) (around m current)), False))"

text \<open>
  The second walk numbers the groups and sums the face normals of each, weighted by the
  angle at the vertex; the state is \<open>(current, prevFace, prevEdgeVec, group, normals)\<close>.
  \<open>glm::normalize\<close> of a zero vector and \<open>normals.back()\<close> of an empty vector have no
  defined value here.
\<close>

definition add_last :: "vec3 list \<Rightarrow> vec3 \<Rightarrow> vec3 list" where
  "add_last normals v = (if normals = [] then undefined else butlast normals @ [vadd (last normals) v])"

definition edge_dir :: "Impl \<Rightarrow> int \<Rightarrow> vec3 \<Rightarrow> vec3" where
  "edge_dir m current centerPos =
     the (glm_normalize (vsub (rd (vertPos m) (endVert (rd (halfedge m) current))) centerPos))"

definition corner_angle :: "vec3 \<Rightarrow> vec3 \<Rightarrow> real" where
  "corner_angle prevEdgeVec edgeVec =
     (if dot prevEdgeVec edgeVec \<ge> 1 then 0
      else if dot prevEdgeVec edgeVec \<le> - 1 then pi
      else arccos (dot prevEdgeVec edgeVec))"

definition group_step ::
  "Impl \<Rightarrow> bool list \<Rightarrow> real \<Rightarrow> vec3 \<Rightarrow>
   int \<times> int \<times> vec3 \<times> int list \<times> vec3 list \<Rightarrow> int \<times> int \<times> vec3 \<times> int list \<times> vec3 list" where
  "group_step m triIsFlatFace minSharpAngle centerPos st =
     (case st of (current0, prevFace, prevEdgeVec, grp, normals0) \<Rightarrow>
        let current = around m current0;
            f = face (rd (halfedge m) current);
            normals1 = (if face_break m triIsFlatFace minSharpAngle f prevFace
                        then normals0 @ [(0, 0, 0)] else normals0);
            edgeVec = edge_dir m current centerPos
        in (current, f, edgeVec, grp @ [int (length normals1) - 1],
            add_last normals1
              (smul (corner_angle prevEdgeVec edgeVec) (rd (faceNormal m) f))))"

text \<open>
  The third walk hands out the property vertices; the state is
  \<open>(current, lastGroup, lastProp, newProp, idx, tables)\<close>. \<open>NumPropVert()\<close> is taken on
  the table as it is at that moment, with the new \<open>numProp\<close>.
\<close>

definition propVerts :: "Impl \<Rightarrow> int \<Rightarrow> real list \<Rightarrow> int" where
  "propVerts m np props = (if np = 0 then NumVert m else tdiv (int (length props)) np)"

definition assign_step ::
  "Impl \<Rightarrow> real list \<Rightarrow> ivec3 list \<Rightarrow> int \<Rightarrow> int \<Rightarrow> int \<Rightarrow> int list \<Rightarrow> vec3 list \<Rightarrow>
   int \<times> int \<times> int \<times> int \<times> int \<times> ptabs \<Rightarrow> int \<times> int \<times> int \<times> int \<times> int \<times> ptabs" where
  "assign_step m oldProperties oldTriProp oldNumProp np normalIdx grp normals st =
     (case st of (current0, lastGroup, lastProp, newProp, i, props, tprops) \<Rightarrow>
        let current = around m current0;
            thisTri = tdiv current 3;
            j = current - 3 * thisTri;
            prop = ix3 (rd oldTriProp thisTri) j;
            g = rd grp i
        in if g \<noteq> lastGroup \<and> g \<noteq> 0 \<and> prop = lastProp then
             (current, g, lastProp, propVerts m np props, i + 1,
              update_row oldProperties oldNumProp np normalIdx prop (propVerts m np props)
                (rd normals g) (props @ replicate (nat np) 0),
              set_triProp tprops thisTri j (propVerts m np props))
           else if prop \<noteq> lastProp then
             (current, lastGroup, prop, prop, i + 1,
              update_row oldProperties oldNumProp np normalIdx prop prop (rd normals g) props,
              set_triProp tprops thisTri j prop)
           else (current, lastGroup, lastProp, newProp, i + 1, props,
                 set_triProp tprops thisTri j newProp))"

text \<open>The conditions of the four walks, and the normals of the groups.\<close>

definition not_at :: "int \<Rightarrow> int \<times> 'a \<Rightarrow> bool" where
  "not_at e st = (fst st \<noteq> e)"

definition seeking :: "int \<Rightarrow> int \<times> int \<times> bool \<Rightarrow> bool" where
  "seeking startEdge st = (case st of (current, prevFace, stopped) \<Rightarrow> \<not> stopped \<and> current \<noteq> startEdge)"

definition unit_normal :: "vec3 \<Rightarrow> vec3" where
  "unit_normal n = the (glm_normalize n)"

definition tabs_of3 :: "int \<times> int \<times> ptabs \<Rightarrow> ptabs" where
  "tabs_of3 r = snd (snd r)"

definition tabs_of6 :: "int \<times> int \<times> int \<times> int \<times> int \<times> ptabs \<Rightarrow> ptabs" where
  "tabs_of6 r = snd (snd (snd (snd (snd r))))"

text \<open>The creased case of the body of the double loop, after the first walk.\<close>

definition creased_assign ::
  "Impl \<Rightarrow> real list \<Rightarrow> ivec3 list \<Rightarrow> int \<Rightarrow> int \<Rightarrow> int \<Rightarrow> int \<Rightarrow> ptabs \<Rightarrow>
   int \<times> int \<times> vec3 \<times> int list \<times> vec3 list \<Rightarrow> ptabs option" where
  "creased_assign m oldProperties oldTriProp oldNumProp np normalIdx endEdge tabs st =
     (case st of (current, prevFace, prevEdgeVec, grp, normals) \<Rightarrow>
        map_option tabs_of6
          (do_while (assign_step m oldProperties oldTriProp oldNumProp np normalIdx grp
                       (map unit_normal normals))
                    (not_at endEdge) (current, 0, - 1, - 1, 0, tabs)))"

definition creased_groups ::
  "Impl \<Rightarrow> real list \<Rightarrow> ivec3 list \<Rightarrow> int \<Rightarrow> int \<Rightarrow> int \<Rightarrow> real \<Rightarrow> bool list \<Rightarrow> vec3 \<Rightarrow> ptabs \<Rightarrow>
   int \<times> int \<times> bool \<Rightarrow> ptabs option" where
  "creased_groups m oldProperties oldTriProp oldNumProp np normalIdx minSharpAngle triIsFlatFace
       centerPos tabs st =
     (case st of (endEdge, prevFace, stopped) \<Rightarrow>
        Option.bind
          (do_while (group_step m triIsFlatFace minSharpAngle centerPos) (not_at endEdge)
                    (endEdge, prevFace, edge_dir m endEdge centerPos, [], []))
          (creased_assign m oldProperties oldTriProp oldNumProp np normalIdx endEdge tabs))"

text \<open>The body of the double loop over the corners \<open>(tri, i)\<close>.\<close>

definition SetNormals_corner ::
  "Impl \<Rightarrow> real list \<Rightarrow> ivec3 list \<Rightarrow> int \<Rightarrow> int \<Rightarrow> int \<Rightarrow> real \<Rightarrow> bool list \<Rightarrow> int list \<Rightarrow> int list \<Rightarrow>
   int \<Rightarrow> int \<Rightarrow> ptabs \<Rightarrow> ptabs option" where
  "SetNormals_corner m oldProperties oldTriProp oldNumProp np normalIdx minSharpAngle
       triIsFlatFace vertFlatFace vertNumSharp t i tabs =
     (if ix3 (rd (snd tabs) t) i \<ge> 0 then Some tabs
      else
        let startEdge = 3 * t + i;
            vert = startVert (rd (halfedge m) startEdge)
        in if rd vertNumSharp vert < 2 then
             map_option tabs_of3
               (do_while (smooth_step m oldProperties oldTriProp oldNumProp np normalIdx
                            (if rd vertFlatFace vert \<ge> 0
                             then rd (faceNormal m) (rd vertFlatFace vert)
                             else rd (vertNormal m) vert))
                         (not_at startEdge) (startEdge, - 1, tabs))
           else
             Option.bind
               (do_while (seek_step m triIsFlatFace minSharpAngle) (seeking startEdge)
                         (startEdge, face (rd (halfedge m) startEdge), False))
               (creased_groups m oldProperties oldTriProp oldNumProp np normalIdx minSharpAngle
                  triIsFlatFace (rd (vertPos m) vert) tabs))"

definition SetNormals_tri ::
  "Impl \<Rightarrow> real list \<Rightarrow> ivec3 list \<Rightarrow> int \<Rightarrow> int \<Rightarrow> int \<Rightarrow> real \<Rightarrow> bool list \<Rightarrow> int list \<Rightarrow> int list \<Rightarrow>
   int \<Rightarrow> ptabs \<Rightarrow> ptabs option" where
  "SetNormals_tri m oldProperties oldTriProp oldNumProp np normalIdx minSharpAngle
       triIsFlatFace vertFlatFace vertNumSharp t tabs =
     foldO (SetNormals_corner m oldProperties oldTriProp oldNumProp np normalIdx minSharpAngle
              triIsFlatFace vertFlatFace vertNumSharp t) [0, 1, 2] tabs"

text \<open>
  \<open>SetNormals\<close>. The new property table is sized with \<open>NumPropVert()\<close> taken before
  \<open>numProp\<close> is changed; \<open>triProperties\<close> is filled with the start vertices when it is
  empty. The result is \<open>None\<close> when a walk does not come back.
\<close>

definition default_triProp :: "Impl \<Rightarrow> int \<Rightarrow> ivec3" where
  "default_triProp m t =
     (startVert (rd (halfedge m) (3 * t)), startVert (rd (halfedge m) (3 * t + 1)),
      startVert (rd (halfedge m) (3 * t + 2)))"

definition oldTriProp_of :: "Impl \<Rightarrow> ivec3 list" where
  "oldTriProp_of m =
     (if triProperties (meshRelation m) = [] then map (default_triProp m) [0..NumTri m - 1]
      else triProperties (meshRelation m))"

definition SetNormals_tables :: "Impl \<Rightarrow> int \<Rightarrow> real \<Rightarrow> ptabs option" where
  "SetNormals_tables m normalIdx minSharpAngle =
     foldO (SetNormals_tri m (properties (meshRelation m)) (oldTriProp_of m) (NumProp m)
              (max (NumProp m) (normalIdx + 3)) normalIdx minSharpAngle (FlatFaces m)
              (VertFlatFace m (FlatFaces m))
              (vertNumSharp_of m (FlatFaces m) (VertFlatFace m (FlatFaces m)) minSharpAngle))
           [0..NumTri m - 1]
           (replicate (nat (max (NumProp m) (normalIdx + 3) * NumPropVert m)) 0,
            replicate (nat (NumTri m)) (- 1, - 1, - 1))"

definition put_tables :: "Impl \<Rightarrow> int \<Rightarrow> ptabs \<Rightarrow> Impl" where
  "put_tables m np tabs =
     m\<lparr>meshRelation := (meshRelation m)
          \<lparr>numProp := np, properties := fst tabs, triProperties := snd tabs\<rparr>\<rparr>"

definition SetNormals :: "Impl \<Rightarrow> int \<Rightarrow> real \<Rightarrow> Impl option" where
  "SetNormals m normalIdx minSharpAngle =
     (if IsEmpty m then Some m
      else if normalIdx < 0 then Some m
      else map_option (put_tables m (max (NumProp m) (normalIdx + 3)))
             (SetNormals_tables m normalIdx minSharpAngle))"

subsection \<open>Tangents\<close>

text \<open>
  A division of floats by zero is not finite. \<open>fdiv\<close> is the division where the divisor
  is not zero and has no defined value where it is.
\<close>

definition fdiv :: "real \<Rightarrow> real \<Rightarrow> real" where
  "fdiv a b = (if b = 0 then undefined else a / b)"

text \<open>
  \<open>CircularTangent\<close>. \<open>bz2\<close> is \<open>weight * vec4(dir * length(edgeVec) / (2 * weight), 1)\<close> and
  \<open>bz3\<close> is \<open>mix(vec4(0, 0, 0, 1), bz2, 2 / 3)\<close>.
\<close>

definition tangent_weight :: "vec3 \<Rightarrow> vec3 \<Rightarrow> real" where
  "tangent_weight dir edgeVec =
     (if \<bar>dot dir (SafeNormalize edgeVec)\<bar> = 0 then 1 else \<bar>dot dir (SafeNormalize edgeVec)\<bar>)"

definition bz2_of :: "vec3 \<Rightarrow> vec3 \<Rightarrow> real \<Rightarrow> vec4" where
  "bz2_of dir edgeVec weight =
     (weight * fdiv (ix3 dir 0 * vlength edgeVec) (2 * weight),
      weight * fdiv (ix3 dir 1 * vlength edgeVec) (2 * weight),
      weight * fdiv (ix3 dir 2 * vlength edgeVec) (2 * weight),
      weight * 1)"

definition geometric :: "vec4 \<Rightarrow> vec4" where
  "geometric bz3 =
     (fdiv (ix4 bz3 0) (ix4 bz3 3), fdiv (ix4 bz3 1) (ix4 bz3 3), fdiv (ix4 bz3 2) (ix4 bz3 3),
      ix4 bz3 3)"

definition CircularTangent :: "vec3 \<Rightarrow> vec3 \<Rightarrow> vec4" where
  "CircularTangent tangent edgeVec =
     geometric (mix4 (0, 0, 0, 1)
                  (bz2_of (SafeNormalize tangent) edgeVec
                     (tangent_weight (SafeNormalize tangent) edgeVec))
                  (2 / 3))"

text \<open>
  The procedure as the specification words it. \<open>u\<close> is the direction \<open>d\<close> normalised and
  \<open>eh\<close> the edge vector \<open>e\<close> normalised, both by the normalisation that the specification
  names for this code, \<open>SafeNormalize\<close>, which gives the zero vector where the length is
  zero; \<open>weight = |dot(u, eh)|\<close>, replaced by 1 when it is 0;
  \<open>B2 = weight * (u * |e| / (2 weight), 1)\<close>; \<open>B3 = mix((0,0,0,1), B2, 2/3)\<close>; the result
  is \<open>(B3.xyz / B3.w, B3.w)\<close>. The divisions are those of the reals.
\<close>

definition CircularTangent_spec :: "vec3 \<Rightarrow> vec3 \<Rightarrow> vec4" where
  "CircularTangent_spec d e =
     (let u = SafeNormalize d;
          eh = SafeNormalize e;
          w0 = \<bar>dot u eh\<bar>;
          weight = (if w0 = 0 then 1 else w0);
          B2 = (weight * (ix3 u 0 * vlength e / (2 * weight)),
                weight * (ix3 u 1 * vlength e / (2 * weight)),
                weight * (ix3 u 2 * vlength e / (2 * weight)),
                weight * 1);
          B3 = mix4 (0, 0, 0, 1) B2 (2 / 3)
      in (ix4 B3 0 / ix4 B3 3, ix4 B3 1 / ix4 B3 3, ix4 B3 2 / ix4 B3 3, ix4 B3 3))"

text \<open>\<open>SmoothBezier\<close>: the tangent of one half-edge.\<close>

definition SmoothBezier :: "Impl \<Rightarrow> vec3 list \<Rightarrow> Halfedge \<Rightarrow> vec4" where
  "SmoothBezier m vertNormal0 edge =
     (let edgeVec = vsub (rd (vertPos m) (endVert edge)) (rd (vertPos m) (startVert edge));
          edgeNormal = sdiv3 (vadd (rd (faceNormal m) (face edge))
                                    (rd (faceNormal m)
                                        (face (rd (halfedge m) (pairedHalfedge edge))))) 2;
          dir = cross (cross edgeNormal edgeVec) (rd vertNormal0 (startVert edge))
      in CircularTangent dir edgeVec)"

text \<open>
  \<open>GetNormal\<close> reads the three floats at \<open>normalIdx\<close> of the property vertex of a corner.
\<close>

definition GetNormal :: "Impl \<Rightarrow> int \<Rightarrow> int \<Rightarrow> vec3" where
  "GetNormal m h normalIdx =
     (let prop = ix3 (rd (triProperties (meshRelation m)) (tdiv h 3)) (tmod h 3);
          base = prop * numProp (meshRelation m) + normalIdx
      in (rd (properties (meshRelation m)) base,
          rd (properties (meshRelation m)) (base + 1),
          rd (properties (meshRelation m)) (base + 2)))"

text \<open>
  Modelled from the spec: \<open>ForVert\<close>, the traversal of the fan of a vertex, is declared
  outside the file. It walks \<open>current \<leftarrow> NextHalfedge(paired(current))\<close> from a half-edge
  until it is back. The first form hands \<open>binaryOp\<close> each half-edge with the transformed
  values of it and of the next one; the second form calls \<open>func\<close> on each half-edge it
  steps to. \<open>acc\<close> stands for what the closures capture by reference.
\<close>

definition ForVert_step ::
  "Impl \<Rightarrow> (int \<Rightarrow> 't) \<Rightarrow> (int \<Rightarrow> 't \<Rightarrow> 't \<Rightarrow> 's \<Rightarrow> 's) \<Rightarrow> int \<times> 't \<times> 's \<Rightarrow> int \<times> 't \<times> 's" where
  "ForVert_step m transform binaryOp st =
     (case st of (current, here, acc) \<Rightarrow>
        (around m current, transform (around m current),
         binaryOp current here (transform (around m current)) acc))"

definition ForVertT ::
  "Impl \<Rightarrow> int \<Rightarrow> (int \<Rightarrow> 't) \<Rightarrow> (int \<Rightarrow> 't \<Rightarrow> 't \<Rightarrow> 's \<Rightarrow> 's) \<Rightarrow> 's \<Rightarrow> 's option" where
  "ForVertT m h transform binaryOp acc =
     map_option (\<lambda>r. snd (snd r))
       (do_while (ForVert_step m transform binaryOp) (not_at h) (h, transform h, acc))"

definition ForVert_each :: "Impl \<Rightarrow> (int \<Rightarrow> 's \<Rightarrow> 's) \<Rightarrow> int \<times> 's \<Rightarrow> int \<times> 's" where
  "ForVert_each m func st = (case st of (current, acc) \<Rightarrow> (around m current, func (around m current) acc))"

definition ForVert :: "Impl \<Rightarrow> int \<Rightarrow> (int \<Rightarrow> 's \<Rightarrow> 's) \<Rightarrow> 's \<Rightarrow> 's option" where
  "ForVert m h func acc = map_option snd (do_while (ForVert_each m func) (not_at h) (h, acc))"

subsection \<open>CreateTangents from property normals\<close>

text \<open>
  The first loop of \<open>CreateTangents(int normalIdx)\<close> records up to two half-edges per
  vertex across which the property normal changes. \<open>kTolerance\<close> is a constant of the
  library declared outside the file; it is a parameter here. The closure given to
  \<open>ForVert\<close> works on \<open>(sharpHalfedge, idx, lastNormal)\<close>.
\<close>

type_synonym ivec2 = "int \<times> int"

fun ix2 :: "'a \<times> 'a \<Rightarrow> int \<Rightarrow> 'a" where
  "ix2 (a, b) i = (if i = 0 then a else if i = 1 then b else undefined)"

fun set2 :: "'a \<times> 'a \<Rightarrow> int \<Rightarrow> 'a \<Rightarrow> 'a \<times> 'a" where
  "set2 (a, b) i v = (if i = 0 then (v, b) else if i = 1 then (a, v) else undefined)"

definition sharp_op :: "real \<Rightarrow> int \<Rightarrow> vec3 \<Rightarrow> vec3 \<Rightarrow> ivec2 \<times> int \<times> vec3 \<Rightarrow> ivec2 \<times> int \<times> vec3" where
  "sharp_op kTolerance h normal nextNormal st =
     (case st of (sharpHalfedge, i, lastNormal) \<Rightarrow>
        if dot (vsub nextNormal normal) (vsub nextNormal normal) > kTolerance * kTolerance
        then (if i > 1 then (set2 sharpHalfedge 0 (- 1), i, normal)
              else (set2 sharpHalfedge i h, i + 1, normal))
        else (sharpHalfedge, i, normal))"

definition normal_at :: "Impl \<Rightarrow> int \<Rightarrow> int \<Rightarrow> vec3" where
  "normal_at m normalIdx h = GetNormal m h normalIdx"

definition put_sharp :: "int \<Rightarrow> vec3 list \<times> ivec2 list \<Rightarrow> ivec2 \<times> int \<times> vec3 \<Rightarrow> vec3 list \<times> ivec2 list" where
  "put_sharp vert st r =
     (case r of (sharpHalfedge, i, lastNormal) \<Rightarrow>
        (wr (fst st) vert lastNormal, wr (snd st) vert sharpHalfedge))"

definition sharp_edge_step ::
  "Impl \<Rightarrow> int \<Rightarrow> real \<Rightarrow> int \<Rightarrow> vec3 list \<times> ivec2 list \<Rightarrow> (vec3 list \<times> ivec2 list) option" where
  "sharp_edge_step m normalIdx kTolerance e st =
     (let vert = startVert (rd (halfedge m) e) in
      if ix2 (rd (snd st) vert) 0 \<ge> 0 \<and> ix2 (rd (snd st) vert) 1 \<ge> 0 then Some st
      else map_option (put_sharp vert st)
             (ForVertT m e (normal_at m normalIdx) (sharp_op kTolerance)
                (rd (snd st) vert, 0, rd (fst st) vert)))"

definition vertSharp :: "Impl \<Rightarrow> int \<Rightarrow> real \<Rightarrow> (vec3 list \<times> ivec2 list) option" where
  "vertSharp m normalIdx kTolerance =
     foldO (sharp_edge_step m normalIdx kTolerance) [0..int (length (halfedge m)) - 1]
       (replicate (nat (NumVert m)) undefined, replicate (nat (NumVert m)) (- 1, - 1))"

text \<open>
  The last loop, for one vertex. With two sharp half-edges the new tangent is the
  normalised cross product of their normals, and nothing is done when that is not finite.
\<close>

definition vneg :: "vec3 \<Rightarrow> vec3" where
  "vneg v = smul (- 1) v"

definition zero_other :: "int \<Rightarrow> int \<Rightarrow> int \<Rightarrow> vec4 list \<Rightarrow> vec4 list" where
  "zero_other h1 h2 current tangents =
     (if current \<noteq> h1 \<and> current \<noteq> h2 then wr tangents current (0, 0, 0, 0) else tangents)"

definition edge_from :: "Impl \<Rightarrow> int \<Rightarrow> vec3 \<Rightarrow> vec3" where
  "edge_from m h pos = vsub (rd (vertPos m) (endVert (rd (halfedge m) h))) pos"

definition make_crease :: "Impl \<Rightarrow> int \<Rightarrow> int \<Rightarrow> int \<Rightarrow> vec3 \<Rightarrow> vec4 list \<Rightarrow> vec4 list option" where
  "make_crease m vert h1 h2 newTangent tangents =
     ForVert m h1 (zero_other h1 h2)
       (wr (wr tangents h1 (CircularTangent newTangent (edge_from m h1 (rd (vertPos m) vert))))
           h2 (CircularTangent (vneg newTangent) (edge_from m h2 (rd (vertPos m) vert))))"

definition zero_step :: "Impl \<Rightarrow> int \<times> vec4 list \<Rightarrow> int \<times> vec4 list" where
  "zero_step m st = (case st of (current, tangents) \<Rightarrow> (around m current, wr tangents current (0, 0, 0, 0)))"

definition crease_vert :: "Impl \<Rightarrow> int \<Rightarrow> ivec2 list \<Rightarrow> int \<Rightarrow> vec4 list \<Rightarrow> vec4 list option" where
  "crease_vert m normalIdx vertSharpHalfedge vert tangents =
     (let h1 = ix2 (rd vertSharpHalfedge vert) 0;
          h2 = ix2 (rd vertSharpHalfedge vert) 1
      in if h2 = - 1 then Some tangents
         else if h1 \<noteq> - 1 then
           (case glm_normalize (cross (GetNormal m h1 normalIdx) (GetNormal m h2 normalIdx)) of
              None \<Rightarrow> Some tangents
            | Some newTangent \<Rightarrow> make_crease m vert h1 h2 newTangent tangents)
         else map_option snd (do_while (zero_step m) (not_at h1) (h1, tangents)))"

definition smooth_crease :: "Impl \<Rightarrow> int \<Rightarrow> vec3 list \<times> ivec2 list \<Rightarrow> vec4 list option" where
  "smooth_crease m normalIdx st =
     foldO (crease_vert m normalIdx (snd st)) [0..NumVert m - 1]
       (map (SmoothBezier m (fst st)) (halfedge m))"

definition set_tangents :: "Impl \<Rightarrow> vec4 list \<Rightarrow> Impl" where
  "set_tangents m tangents = m\<lparr>halfedgeTangent := tangents\<rparr>"

definition CreateTangents_normal :: "Impl \<Rightarrow> int \<Rightarrow> real \<Rightarrow> Impl option" where
  "CreateTangents_normal m normalIdx kTolerance =
     map_option (set_tangents m)
       (Option.bind (vertSharp m normalIdx kTolerance) (smooth_crease m normalIdx))"

subsection \<open>CreateTangents from a list of sharpened edges\<close>

text \<open>
  A \<open>std::map\<close> with \<open>int\<close> keys is a list of pairs kept in the order of the keys, which
  is the order a loop over the map visits them in.
\<close>

fun map_put :: "(int \<times> 'v) list \<Rightarrow> int \<Rightarrow> 'v \<Rightarrow> (int \<times> 'v) list" where
  "map_put [] k v = [(k, v)]"
| "map_put ((k', v') # rest) k v =
     (if k < k' then (k, v) # (k', v') # rest
      else if k = k' then (k, v) # rest
      else (k', v') # map_put rest k v)"

type_synonym spair = "Smoothness \<times> Smoothness"

definition flat_vertNormal :: "Impl \<Rightarrow> int list \<Rightarrow> int \<Rightarrow> vec3 list \<Rightarrow> vec3 list" where
  "flat_vertNormal m vertFlatFace v vn =
     (if rd vertFlatFace v \<ge> 0 then wr vn v (rd (faceNormal m) (rd vertFlatFace v)) else vn)"

definition flat_sharp_edge :: "Impl \<Rightarrow> bool list \<Rightarrow> int \<Rightarrow> int \<Rightarrow> Smoothness list \<Rightarrow> Smoothness list" where
  "flat_sharp_edge m triIsFlatFace t j sharpenedEdges =
     (let tri2 = tdiv (pairedHalfedge (rd (halfedge m) (3 * t + j))) 3 in
      if \<not> rd triIsFlatFace tri2 \<or>
         \<not> SameFace (rd (triRef (meshRelation m)) t) (rd (triRef (meshRelation m)) tri2)
      then sharpenedEdges @ [\<lparr>sHalfedge = 3 * t + j, smoothness = 0\<rparr>]
      else sharpenedEdges)"

definition flat_sharp_tri :: "Impl \<Rightarrow> bool list \<Rightarrow> int \<Rightarrow> Smoothness list \<Rightarrow> Smoothness list" where
  "flat_sharp_tri m triIsFlatFace t sharpenedEdges =
     (if \<not> rd triIsFlatFace t then sharpenedEdges
      else fold (flat_sharp_edge m triIsFlatFace t) [0, 1, 2] sharpenedEdges)"

text \<open>The loop that fills \<open>edges\<close>, keyed by the forward half-edge of each edge.\<close>

definition lower_smoothness :: "Smoothness \<Rightarrow> Smoothness \<Rightarrow> Smoothness" where
  "lower_smoothness edge e = e\<lparr>smoothness := min (smoothness edge) (smoothness e)\<rparr>"

definition edge_entry :: "Impl \<Rightarrow> Smoothness \<Rightarrow> (int \<times> spair) list \<Rightarrow> (int \<times> spair) list" where
  "edge_entry m edge edges =
     (if smoothness edge \<ge> 1 then edges
      else
        let forward = IsForward (rd (halfedge m) (sHalfedge edge));
            pair = pairedHalfedge (rd (halfedge m) (sHalfedge edge));
            k = (if forward then sHalfedge edge else pair)
        in case map_of edges k of
             None \<Rightarrow>
               map_put edges k
                 (if forward then (edge, \<lparr>sHalfedge = pair, smoothness = 1\<rparr>)
                  else (\<lparr>sHalfedge = pair, smoothness = 1\<rparr>, edge))
           | Some p \<Rightarrow>
               map_put edges k
                 (if forward then (lower_smoothness edge (fst p), snd p)
                  else (fst p, lower_smoothness edge (snd p))))"

definition vt_push :: "(int \<times> spair list) list \<Rightarrow> int \<Rightarrow> spair \<Rightarrow> (int \<times> spair list) list" where
  "vt_push vertTangents k p =
     map_put vertTangents k (case map_of vertTangents k of None \<Rightarrow> [p] | Some ps \<Rightarrow> ps @ [p])"

definition vt_entry :: "Impl \<Rightarrow> int \<times> spair \<Rightarrow> (int \<times> spair list) list \<Rightarrow> (int \<times> spair list) list" where
  "vt_entry m kv vertTangents =
     (let edge = snd kv in
      vt_push
        (vt_push vertTangents (startVert (rd (halfedge m) (sHalfedge (fst edge)))) edge)
        (startVert (rd (halfedge m) (sHalfedge (snd edge)))) (snd edge, fst edge))"

text \<open>
  The last loop, for one vertex of \<open>vertTangents\<close>. A direction that is a NaN is taken
  by \<open>SafeNormalize\<close> inside \<open>CircularTangent\<close> to the zero vector, as the zero vector is.
\<close>

fun smul4 :: "real \<Rightarrow> vec4 \<Rightarrow> vec4" where
  "smul4 k (a0, a1, a2, a3) = (k * a0, k * a1, k * a2, k * a3)"

definition xyz :: "vec4 \<Rightarrow> vec3" where
  "xyz v = (ix4 v 0, ix4 v 1, ix4 v 2)"

definition finite_or_zero :: "vec3 option \<Rightarrow> vec3" where
  "finite_or_zero v = (case v of None \<Rightarrow> (0, 0, 0) | Some u \<Rightarrow> u)"

definition scale_step :: "Impl \<Rightarrow> real \<Rightarrow> int \<times> vec4 list \<Rightarrow> int \<times> vec4 list" where
  "scale_step m s st =
     (case st of (current, tangents) \<Rightarrow>
        (around m current, wr tangents current (smul4 s (rd tangents current))))"

definition SmoothHalf :: "Impl \<Rightarrow> int \<Rightarrow> int \<Rightarrow> real \<Rightarrow> vec4 list \<Rightarrow> vec4 list option" where
  "SmoothHalf m h1 h2 s tangents =
     map_option snd (while_option (not_at h2) (scale_step m s) (around m h1, tangents))"

definition sum_smoothness :: "spair \<Rightarrow> real \<Rightarrow> real" where
  "sum_smoothness p s = s + smoothness (fst p) + smoothness (snd p)"

definition continuous_edge :: "Impl \<Rightarrow> spair list \<Rightarrow> vec4 list \<Rightarrow> vec4 list option" where
  "continuous_edge m vert tangents =
     (let h1 = sHalfedge (fst (vert ! 0));
          h2 = sHalfedge (fst (vert ! 1));
          newTangent = glm_normalize (vsub (xyz (rd tangents h1)) (xyz (rd tangents h2)));
          pos = rd (vertPos m) (startVert (rd (halfedge m) h1));
          t1 = wr tangents h1 (CircularTangent (finite_or_zero newTangent) (edge_from m h1 pos));
          t2 = wr t1 h2 (CircularTangent (finite_or_zero (map_option vneg newTangent))
                           (edge_from m h2 pos))
      in Option.bind
           (SmoothHalf m h1 h2 ((smoothness (snd (vert ! 0)) + smoothness (fst (vert ! 1))) / 2) t2)
           (SmoothHalf m h2 h1 ((smoothness (snd (vert ! 1)) + smoothness (fst (vert ! 0))) / 2)))"

definition sharpen_vert :: "Impl \<Rightarrow> int \<times> spair list \<Rightarrow> vec4 list \<Rightarrow> vec4 list option" where
  "sharpen_vert m kv tangents =
     (if length (snd kv) = 1 then Some tangents
      else if length (snd kv) = 2 then continuous_edge m (snd kv) tangents
      else map_option snd
             (do_while (scale_step m (fdiv (fold sum_smoothness (snd kv) 0)
                                           (of_nat (2 * length (snd kv)))))
                       (not_at (sHalfedge (fst (snd kv ! 0))))
                       (sHalfedge (fst (snd kv ! 0)), tangents)))"

definition CreateTangents_edges :: "Impl \<Rightarrow> Smoothness list \<Rightarrow> Impl option" where
  "CreateTangents_edges m sharpenedEdges0 =
     (let triIsFlatFace = FlatFaces m;
          vertFlatFace = VertFlatFace m triIsFlatFace;
          vn = fold (flat_vertNormal m vertFlatFace) [0..NumVert m - 1] (vertNormal m);
          tangents = map (SmoothBezier m vn) (halfedge m);
          sharpenedEdges = fold (flat_sharp_tri m triIsFlatFace) [0..NumTri m - 1] sharpenedEdges0
      in if sharpenedEdges = [] then Some (set_tangents m tangents)
         else map_option (set_tangents m)
                (foldO (sharpen_vert m) (fold (vt_entry m) (fold (edge_entry m) sharpenedEdges []) [])
                   tangents))"

section \<open>Subdivide and Refine\<close>

text \<open>
  Modelled from the spec: \<open>CreateTmpEdges\<close> is declared outside the file. It gives one
  \<open>TmpEdge {first, second, halfedgeIdx}\<close> per undirected edge, with a half-edge that
  stands for it: here the forward half-edge, in the order of the half-edges.
\<close>

definition tmp_edge :: "int \<times> Halfedge \<Rightarrow> TmpEdge" where
  "tmp_edge ih =
     \<lparr>first = min (startVert (snd ih)) (endVert (snd ih)),
      second = max (startVert (snd ih)) (endVert (snd ih)), halfedgeIdx = fst ih\<rparr>"

definition forward_entry :: "int \<times> Halfedge \<Rightarrow> bool" where
  "forward_entry ih = IsForward (snd ih)"

definition CreateTmpEdges :: "Halfedge list \<Rightarrow> TmpEdge list" where
  "CreateTmpEdges hs = map tmp_edge (filter forward_entry (zip [0..int (length hs) - 1] hs))"

text \<open>\<open>ReindexHalfedge\<close>, run for every edge with its index.\<close>

definition ReindexHalfedge :: "Impl \<Rightarrow> int \<times> TmpEdge \<Rightarrow> int list \<Rightarrow> int list" where
  "ReindexHalfedge m ke half2Edge =
     wr (wr half2Edge (halfedgeIdx (snd ke)) (fst ke))
        (pairedHalfedge (rd (halfedge m) (halfedgeIdx (snd ke)))) (fst ke)"

definition half2Edge_of :: "Impl \<Rightarrow> TmpEdge list \<Rightarrow> int list" where
  "half2Edge_of m edges =
     fold (ReindexHalfedge m) (zip [0..int (length edges) - 1] edges)
          (replicate (2 * length edges) undefined)"

definition edge_divisions :: "Impl \<Rightarrow> (vec3 \<Rightarrow> int) \<Rightarrow> TmpEdge \<Rightarrow> int" where
  "edge_divisions m edgeDivisions edge =
     edgeDivisions (vsub (rd (vertPos m) (first edge)) (rd (vertPos m) (second edge)))"

fun exclusive_scan :: "int list \<Rightarrow> int \<Rightarrow> int list" where
  "exclusive_scan [] a = []"
| "exclusive_scan (x # xs) a = a # exclusive_scan xs (a + x)"

text \<open>\<open>back()\<close> of a \<open>Vec\<close>: there is no last element in an empty one.\<close>

definition vec_back :: "'a list \<Rightarrow> fault + 'a" where
  "vec_back xs = (if xs = [] then Inl OutOfRange else Inr (last xs))"

text \<open>\<open>FillRetainedVerts\<close>, and the points inserted along one edge.\<close>

definition unit3 :: "int \<Rightarrow> vec3" where
  "unit3 i = set3 (0, 0, 0) i 1"

definition retain_step :: "Impl \<Rightarrow> int \<Rightarrow> int \<Rightarrow> Barycentric list \<Rightarrow> Barycentric list" where
  "retain_step m t i vb = wr vb (startVert (rd (halfedge m) (3 * t + i))) \<lparr>btri = t, uvw = unit3 i\<rparr>"

definition retain_tri :: "Impl \<Rightarrow> int \<Rightarrow> Barycentric list \<Rightarrow> Barycentric list" where
  "retain_tri m t vb = fold (retain_step m t) [0, 1, 2] vb"

definition FillRetainedVerts :: "Impl \<Rightarrow> Barycentric list \<Rightarrow> Barycentric list" where
  "FillRetainedVerts m vb =
     fold (retain_tri m) [0..tdiv (int (length (halfedge m))) 3 - 1] vb"

definition edge_uvw :: "int \<Rightarrow> int \<Rightarrow> int \<Rightarrow> vec3" where
  "edge_uvw h n i =
     (let v0 = tmod h 3; v1 = Next3 v0;
          u1 = set3 (0, 0, 0) v1 ((of_int i + 1) * fdiv 1 (of_int (n + 1)))
      in set3 u1 v0 (1 - ix3 u1 v1))"

definition edge_bary_put :: "int \<Rightarrow> int \<Rightarrow> int \<Rightarrow> int \<Rightarrow> Barycentric list \<Rightarrow> Barycentric list" where
  "edge_bary_put h n offset i vb = wr vb (offset + i) \<lparr>btri = tdiv h 3, uvw = edge_uvw h n i\<rparr>"

definition edge_bary :: "TmpEdge \<times> int \<times> int \<Rightarrow> Barycentric list \<Rightarrow> Barycentric list" where
  "edge_bary eno vb =
     (case eno of (edge, n, offset) \<Rightarrow>
        fold (edge_bary_put (halfedgeIdx edge) n offset) [0..n - 1] vb)"

text \<open>The partition of one triangle.\<close>

definition tri_divisions :: "int list \<Rightarrow> int list \<Rightarrow> int \<Rightarrow> ivec3" where
  "tri_divisions half2Edge edgeAdded t =
     (rd edgeAdded (rd half2Edge (3 * t)) + 1,
      rd edgeAdded (rd half2Edge (3 * t + 1)) + 1,
      rd edgeAdded (rd half2Edge (3 * t + 2)) + 1)"

definition tri_partition :: "int list \<Rightarrow> int list \<Rightarrow> int \<Rightarrow> fault + Partition" where
  "tri_partition half2Edge edgeAdded t = GetPartition (tri_divisions half2Edge edgeAdded t)"

definition numSubTris :: "Partition \<Rightarrow> int" where
  "numSubTris p = int (length (triVert p))"

text \<open>\<open>copy\<close> of a range to a place in an array.\<close>

definition copy_put :: "int \<Rightarrow> int \<times> 'a \<Rightarrow> 'a list \<Rightarrow> 'a list" where
  "copy_put offset ix xs = wr xs (offset + fst ix) (snd ix)"

definition copy_to :: "'a list \<Rightarrow> int \<Rightarrow> 'a list \<Rightarrow> 'a list" where
  "copy_to src offset dst = fold (copy_put offset) (zip [0..int (length src) - 1] src) dst"

text \<open>
  The loop that welds the partitions into the mesh; its state is
  \<open>(triVerts, triRef, vertBary)\<close>.
\<close>

definition tri_corners :: "Impl \<Rightarrow> int \<Rightarrow> ivec3" where
  "tri_corners m t =
     (startVert (rd (halfedge m) (3 * t)), startVert (rd (halfedge m) (3 * t + 1)),
      startVert (rd (halfedge m) (3 * t + 2)))"

definition tri_edgeOffsets :: "int list \<Rightarrow> int list \<Rightarrow> int \<Rightarrow> ivec3" where
  "tri_edgeOffsets edgeOffset half2Edge t =
     (rd edgeOffset (rd half2Edge (3 * t)), rd edgeOffset (rd half2Edge (3 * t + 1)),
      rd edgeOffset (rd half2Edge (3 * t + 2)))"

definition tri_edgeFwd :: "Impl \<Rightarrow> int \<Rightarrow> bvec3" where
  "tri_edgeFwd m t =
     (IsForward (rd (halfedge m) (3 * t)), IsForward (rd (halfedge m) (3 * t + 1)),
      IsForward (rd (halfedge m) (3 * t + 2)))"

definition rIdx_of :: "ivec3 \<Rightarrow> ivec3" where
  "rIdx_of idx0 =
     (let vIdx = (if ix3 idx0 1 = Next3 (ix3 idx0 0) then idx0
                  else (ix3 idx0 2, ix3 idx0 0, ix3 idx0 1))
      in set3 (set3 (set3 (0, 0, 0) (ix3 vIdx 0) 0) (ix3 vIdx 1) 1) (ix3 vIdx 2) 2)"

definition interior_bary :: "int \<Rightarrow> ivec3 \<Rightarrow> vec3 \<Rightarrow> Barycentric" where
  "interior_bary t rIdx bary =
     \<lparr>btri = t, uvw = (ix3 bary (ix3 rIdx 0), ix3 bary (ix3 rIdx 1), ix3 bary (ix3 rIdx 2))\<rparr>"

type_synonym weld = "ivec3 list \<times> TriRef list \<times> Barycentric list"

definition weld_put ::
  "Impl \<Rightarrow> Partition \<Rightarrow> int \<Rightarrow> int \<Rightarrow> int \<Rightarrow> weld \<Rightarrow> ivec3 list \<Rightarrow> fault + weld" where
  "weld_put m p t triOff intOff st newTris =
     (case st of (triVerts, triRef0, vertBary0) \<Rightarrow>
        Inr (copy_to newTris triOff triVerts,
             copy_to (replicate (length newTris) (rd (triRef (meshRelation m)) t)) triOff triRef0,
             copy_to (map (interior_bary t (rIdx_of (idx p)))
                          (drop (nat (InteriorOffset p)) (vertBary p)))
                     intOff vertBary0))"

definition weld_tri ::
  "Impl \<Rightarrow> Partition list \<Rightarrow> int list \<Rightarrow> int list \<Rightarrow> int list \<Rightarrow> int list \<Rightarrow> int \<Rightarrow> weld \<Rightarrow>
   fault + weld" where
  "weld_tri m subTris edgeOffset half2Edge triOffset interiorOffset t st =
     bnd (Reindex (subTris ! nat t) (tri_corners m t) (tri_edgeOffsets edgeOffset half2Edge t)
            (tri_edgeFwd m t) (rd interiorOffset t))
         (weld_put m (subTris ! nat t) t (rd triOffset t) (rd interiorOffset t) st)"

text \<open>The new positions: the corners of the source triangle combined by \<open>uvw\<close>.\<close>

definition bary_pos :: "Impl \<Rightarrow> Barycentric \<Rightarrow> vec3" where
  "bary_pos m b =
     vadd (vadd (smul (ix3 (uvw b) 0) (rd (vertPos m) (startVert (rd (halfedge m) (3 * btri b)))))
                (smul (ix3 (uvw b) 1) (rd (vertPos m) (startVert (rd (halfedge m) (3 * btri b + 1))))))
          (smul (ix3 (uvw b) 2) (rd (vertPos m) (startVert (rd (halfedge m) (3 * btri b + 2)))))"

text \<open>The properties of the new vertices, interpolated in their source triangle.\<close>

definition prop_at :: "Impl \<Rightarrow> int \<Rightarrow> int \<Rightarrow> int \<Rightarrow> real" where
  "prop_at m t i p =
     rd (properties (meshRelation m))
        (ix3 (rd (triProperties (meshRelation m)) t) i * numProp (meshRelation m) + p)"

definition interp_prop :: "Impl \<Rightarrow> int \<Rightarrow> vec3 \<Rightarrow> int \<Rightarrow> real" where
  "interp_prop m t w p = dot (prop_at m t 0 p, prop_at m t 1 p, prop_at m t 2 p) w"

definition prop_put :: "Impl \<Rightarrow> int \<Rightarrow> int \<Rightarrow> vec3 \<Rightarrow> int \<Rightarrow> real list \<Rightarrow> real list" where
  "prop_put m vert t w p prop = wr prop (vert * numProp (meshRelation m) + p) (interp_prop m t w p)"

definition added_vert_prop :: "Impl \<Rightarrow> int \<Rightarrow> int \<Rightarrow> Barycentric list \<Rightarrow> int \<Rightarrow> real list \<Rightarrow> real list" where
  "added_vert_prop m numPropVert numVert vertBary0 k prop =
     fold (prop_put m (numPropVert + k) (btri (rd vertBary0 (numVert + k)))
             (uvw (rd vertBary0 (numVert + k))))
          [0..numProp (meshRelation m) - 1] prop"

definition edge_vert_prop :: "Impl \<Rightarrow> int \<Rightarrow> int \<Rightarrow> int \<Rightarrow> int \<Rightarrow> real list \<Rightarrow> real list" where
  "edge_vert_prop m h n offset i prop =
     fold (prop_put m (offset + i) (tdiv h 3) (edge_uvw h n i)) [0..numProp (meshRelation m) - 1] prop"

definition edge_prop :: "Impl \<Rightarrow> int \<Rightarrow> int \<Rightarrow> TmpEdge \<times> int \<times> int \<Rightarrow> real list \<Rightarrow> real list" where
  "edge_prop m propOffset addedVerts eno prop =
     (case eno of (edge, n, offset) \<Rightarrow>
        fold (edge_vert_prop m (pairedHalfedge (rd (halfedge m) (halfedgeIdx edge))) n
                (offset + propOffset + addedVerts))
             [0..n - 1] prop)"

text \<open>
  The triangles of the property table. Along a backward half-edge whose pair uses other
  property vertices, the inserted property vertices are the second copies.
\<close>

definition prop_side :: "Impl \<Rightarrow> int \<Rightarrow> int list \<Rightarrow> int list \<Rightarrow> int \<Rightarrow> int \<Rightarrow> ivec3 \<times> bvec3 \<Rightarrow> ivec3 \<times> bvec3" where
  "prop_side m addedVerts edgeOffset half2Edge t i st =
     (let h = rd (halfedge m) (3 * t + i);
          tp = triProperties (meshRelation m);
          eo = set3 (fst st) i (rd edgeOffset (rd half2Edge (3 * t + i)))
      in if \<not> IsForward h then
           (let pairTri = tdiv (pairedHalfedge h) 3; j = tmod (pairedHalfedge h) 3
            in if ix3 (rd tp pairTri) j \<noteq> ix3 (rd tp t) (Next3 i) \<or>
                  ix3 (rd tp pairTri) (Next3 j) \<noteq> ix3 (rd tp t) i
               then (set3 eo i (ix3 eo i + addedVerts), snd st)
               else (eo, set3 (snd st) i False))
         else (eo, snd st))"

definition add3 :: "ivec3 \<Rightarrow> int \<Rightarrow> ivec3" where
  "add3 v k = (ix3 v 0 + k, ix3 v 1 + k, ix3 v 2 + k)"

definition prop_put_tris :: "int \<Rightarrow> ivec3 list \<Rightarrow> ivec3 list \<Rightarrow> fault + ivec3 list" where
  "prop_put_tris triOff triProp newTris = Inr (copy_to newTris triOff triProp)"

definition prop_tri ::
  "Impl \<Rightarrow> Partition list \<Rightarrow> int list \<Rightarrow> int list \<Rightarrow> int list \<Rightarrow> int list \<Rightarrow> int \<Rightarrow> int \<Rightarrow> int \<Rightarrow>
   ivec3 list \<Rightarrow> fault + ivec3 list" where
  "prop_tri m subTris edgeOffset half2Edge triOffset interiorOffset propOffset addedVerts t triProp =
     (let sides = fold (prop_side m addedVerts edgeOffset half2Edge t) [0, 1, 2]
                       ((0, 0, 0), (True, True, True))
      in bnd (Reindex (subTris ! nat t) (rd (triProperties (meshRelation m)) t)
                (add3 (fst sides) propOffset) (snd sides) (rd interiorOffset t + propOffset))
             (prop_put_tris (rd triOffset t) triProp))"

definition resize :: "'a list \<Rightarrow> nat \<Rightarrow> 'a list" where
  "resize xs n = take n xs @ replicate (n - length xs) undefined"

text \<open>
  What \<open>Subdivide\<close> has computed when it is done with the properties:
  \<open>(properties, triProperties)\<close>, unchanged when the mesh has no properties.
\<close>

definition Subdivide_props ::
  "Impl \<Rightarrow> TmpEdge list \<Rightarrow> int list \<Rightarrow> int list \<Rightarrow> int list \<Rightarrow> Partition list \<Rightarrow> int list \<Rightarrow> int list \<Rightarrow>
   Barycentric list \<Rightarrow> int \<Rightarrow> nat \<Rightarrow> fault + real list \<times> ivec3 list" where
  "Subdivide_props m edges edgeAdded edgeOffset half2Edge subTris triOffset interiorOffset
       vertBary0 totalEdgeAdded numTriVerts =
     (if numProp (meshRelation m) > 0 then
        (let numVert = NumVert m;
             numPropVert = NumPropVert m;
             addedVerts = int (length vertBary0) - numVert;
             propOffset = numPropVert - numVert;
             prop0 = copy_to (properties (meshRelation m)) 0
                       (replicate (nat (numProp (meshRelation m) *
                                        (numPropVert + addedVerts + totalEdgeAdded))) undefined);
             prop1 = fold (added_vert_prop m numPropVert numVert vertBary0) [0..addedVerts - 1] prop0;
             prop2 = fold (edge_prop m propOffset addedVerts) (zip edges (zip edgeAdded edgeOffset)) prop1
         in bnd (foldE (prop_tri m subTris edgeOffset half2Edge triOffset interiorOffset
                          propOffset addedVerts)
                       [0..NumTri m - 1] (replicate numTriVerts undefined))
                (\<lambda>triProp. Inr (prop2, triProp)))
      else Inr (properties (meshRelation m), triProperties (meshRelation m)))"

text \<open>
  \<open>Subdivide\<close> up to the call of \<open>CreateHalfedges\<close>: the result is \<open>vertBary\<close>, the
  triangles \<open>triVerts\<close> handed to \<open>CreateHalfedges\<close>, and the mesh with its new positions,
  references and properties.
\<close>

definition Subdivide_finish ::
  "Impl \<Rightarrow> weld \<Rightarrow> real list \<times> ivec3 list \<Rightarrow> fault + Barycentric list \<times> ivec3 list \<times> Impl" where
  "Subdivide_finish m w props =
     (case w of (triVerts, triRef1, vertBary1) \<Rightarrow>
        Inr (vertBary1, triVerts,
             m\<lparr>vertPos := map (bary_pos m) vertBary1, faceNormal := [],
               meshRelation := (meshRelation m)
                 \<lparr>triRef := triRef1, properties := fst props, triProperties := snd props\<rparr>\<rparr>))"

definition Subdivide_weld ::
  "Impl \<Rightarrow> TmpEdge list \<Rightarrow> int list \<Rightarrow> int list \<Rightarrow> int list \<Rightarrow> Barycentric list \<Rightarrow> int \<Rightarrow>
   Partition list \<Rightarrow> fault + Barycentric list \<times> ivec3 list \<times> Impl" where
  "Subdivide_weld m edges edgeAdded edgeOffset half2Edge vertBary0 totalEdgeAdded subTris =
     (let triOffset = exclusive_scan (map numSubTris subTris) 0;
          interiorOffset = exclusive_scan (map NumInterior subTris) (int (length vertBary0))
      in bnd (vec_back triOffset) (\<lambda>lastTriOffset.
         bnd (vec_back interiorOffset) (\<lambda>lastInteriorOffset.
           let n = nat (lastTriOffset + numSubTris (last subTris));
               vertBary1 = resize vertBary0 (nat (lastInteriorOffset + NumInterior (last subTris)))
           in bnd (foldE (weld_tri m subTris edgeOffset half2Edge triOffset interiorOffset)
                         [0..NumTri m - 1]
                         (replicate n undefined, replicate n undefined, vertBary1))
                  (\<lambda>w. bnd (Subdivide_props m edges edgeAdded edgeOffset half2Edge subTris
                               triOffset interiorOffset (snd (snd w)) totalEdgeAdded n)
                             (Subdivide_finish m w)))))"

definition Subdivide_core ::
  "Impl \<Rightarrow> (vec3 \<Rightarrow> int) \<Rightarrow> fault + Barycentric list \<times> ivec3 list \<times> Impl" where
  "Subdivide_core m edgeDivisions =
     (let edges = CreateTmpEdges (halfedge m);
          half2Edge = half2Edge_of m edges;
          edgeAdded = map (edge_divisions m edgeDivisions) edges;
          edgeOffset = exclusive_scan edgeAdded (NumVert m)
      in bnd (vec_back edgeOffset) (\<lambda>lastOffset.
         bnd (vec_back edgeAdded) (\<lambda>lastAdded.
           let vertBary0 = fold edge_bary (zip edges (zip edgeAdded edgeOffset))
                             (FillRetainedVerts m (replicate (nat (lastOffset + lastAdded)) undefined))
           in bnd (mapE (tri_partition half2Edge edgeAdded) [0..NumTri m - 1])
                  (Subdivide_weld m edges edgeAdded edgeOffset half2Edge vertBary0
                     (lastOffset + lastAdded - NumVert m)))))"

text \<open>
  \<open>CreateHalfedges\<close>, \<open>ReserveIDs\<close>, \<open>InitializeOriginal\<close> and \<open>Finish\<close> belong to other
  parts of the library. They are parameters: \<open>CreateHalfedges\<close> takes the triangles,
  \<open>newID\<close> is what \<open>ReserveIDs(1)\<close> returns.
\<close>

record externals =
  CreateHalfedges :: "ivec3 list \<Rightarrow> Impl \<Rightarrow> Impl"
  newID :: int
  InitializeOriginal :: "Impl \<Rightarrow> Impl"
  Finish :: "Impl \<Rightarrow> Impl"

definition Subdivide_halfedges :: "externals \<Rightarrow> Barycentric list \<times> ivec3 list \<times> Impl \<Rightarrow> fault + Barycentric list \<times> Impl" where
  "Subdivide_halfedges ext r = Inr (fst r, CreateHalfedges ext (fst (snd r)) (snd (snd r)))"

definition Subdivide :: "externals \<Rightarrow> Impl \<Rightarrow> (vec3 \<Rightarrow> int) \<Rightarrow> fault + Barycentric list \<times> Impl" where
  "Subdivide ext m edgeDivisions = bnd (Subdivide_core m edgeDivisions) (Subdivide_halfedges ext)"

subsection \<open>InterpTri\<close>

text \<open>
  The kernel that places a refined vertex on the patch of its source triangle. The
  half-edges, tangents and positions are those of the mesh before the subdivision.
\<close>

fun vadd4 :: "vec4 \<Rightarrow> vec4 \<Rightarrow> vec4" where
  "vadd4 (a0, a1, a2, a3) (b0, b1, b2, b3) = (a0 + b0, a1 + b1, a2 + b2, a3 + b3)"

definition vec4_of :: "vec3 \<Rightarrow> real \<Rightarrow> vec4" where
  "vec4_of v w = (ix3 v 0, ix3 v 1, ix3 v 2, w)"

definition Homogeneous4 :: "vec4 \<Rightarrow> vec4" where
  "Homogeneous4 v = (ix4 v 0 * ix4 v 3, ix4 v 1 * ix4 v 3, ix4 v 2 * ix4 v 3, ix4 v 3)"

definition Homogeneous3 :: "vec3 \<Rightarrow> vec4" where
  "Homogeneous3 v = vec4_of v 1"

definition HNormalize :: "vec4 \<Rightarrow> vec3" where
  "HNormalize v = (fdiv (ix4 v 0) (ix4 v 3), fdiv (ix4 v 1) (ix4 v 3), fdiv (ix4 v 2) (ix4 v 3))"

definition Bezier :: "vec3 \<Rightarrow> vec4 \<Rightarrow> vec4" where
  "Bezier point tangent = Homogeneous4 (vadd4 (vec4_of point 0) tangent)"

definition CubicBezier2Linear :: "vec4 \<Rightarrow> vec4 \<Rightarrow> vec4 \<Rightarrow> vec4 \<Rightarrow> real \<Rightarrow> vec4 \<times> vec4" where
  "CubicBezier2Linear p0 p1 p2 p3 x =
     (mix4 (mix4 p0 p1 x) (mix4 p1 p2 x) x, mix4 (mix4 p1 p2 x) (mix4 p2 p3 x) x)"

definition BezierPoint :: "vec4 \<times> vec4 \<Rightarrow> real \<Rightarrow> vec3" where
  "BezierPoint points x = HNormalize (mix4 (fst points) (snd points) x)"

definition BezierTangent :: "vec4 \<times> vec4 \<Rightarrow> vec3" where
  "BezierTangent points =
     the (glm_normalize (vsub (HNormalize (snd points)) (HNormalize (fst points))))"

definition OrthogonalTo :: "vec3 \<Rightarrow> vec3 \<Rightarrow> vec3" where
  "OrthogonalTo v ref = vsub v (smul (dot v ref) ref)"

definition interp_corner ::
  "(int \<Rightarrow> vec3) \<Rightarrow> (int \<Rightarrow> vec4) \<Rightarrow> (int \<Rightarrow> vec4) \<Rightarrow> vec3 \<Rightarrow> int \<Rightarrow> vec4 \<Rightarrow> vec4" where
  "interp_corner corners tangentR tangentL w i posH =
     (let j = tmod (i + 1) 3;
          k = tmod (i + 2) 3;
          x = fdiv (ix3 w k) (1 - ix3 w i);
          bez = CubicBezier2Linear (Homogeneous3 (corners j)) (Bezier (corners j) (tangentR j))
                  (Bezier (corners k) (tangentL k)) (Homogeneous3 (corners k)) x;
          endp = BezierPoint bez x;
          tangent = BezierTangent bez;
          jBitangent = SafeNormalize (OrthogonalTo (xyz (tangentL j))
                                        (SafeNormalize (xyz (tangentR j))));
          kBitangent = SafeNormalize (OrthogonalTo (xyz (tangentR k))
                                        (vneg (SafeNormalize (xyz (tangentL k)))));
          normal = SafeNormalize (cross (mix3 jBitangent kBitangent x) tangent);
          delta = OrthogonalTo (mix3 (xyz (tangentL j)) (xyz (tangentR k)) x) normal;
          deltaW = mix (ix4 (tangentL j) 3) (ix4 (tangentR k) 3) x;
          bez1 = CubicBezier2Linear (Homogeneous3 endp)
                   (Homogeneous4 (vec4_of (vadd endp delta) deltaW))
                   (Bezier (corners i) (mix4 (tangentR i) (tangentL i) x))
                   (Homogeneous3 (corners i)) (ix3 w i);
          p = BezierPoint bez1 (ix3 w i);
          wt = ix3 w j * ix3 w j * ix3 w k * ix3 w k
      in vadd4 posH (Homogeneous4 (vec4_of p wt)))"

definition InterpTri :: "Impl \<Rightarrow> Barycentric \<Rightarrow> vec3" where
  "InterpTri old b =
     (let t = btri b;
          corners = (\<lambda>i. rd (vertPos old) (startVert (rd (halfedge old) (3 * t + i))));
          tangentR = (\<lambda>i. rd (halfedgeTangent old) (3 * t + i));
          tangentL = (\<lambda>i. rd (halfedgeTangent old)
                             (pairedHalfedge (rd (halfedge old) (3 * t + tmod (i + 2) 3))))
      in if ix3 (uvw b) 0 = 1 then corners 0
         else if ix3 (uvw b) 1 = 1 then corners 1
         else if ix3 (uvw b) 2 = 1 then corners 2
         else HNormalize (fold (interp_corner corners tangentR tangentL (uvw b)) [0, 1, 2]
                               (0, 0, 0, 0)))"

subsection \<open>Refine\<close>

definition Refine_smooth :: "externals \<Rightarrow> Impl \<Rightarrow> Barycentric list \<Rightarrow> Impl \<Rightarrow> Impl" where
  "Refine_smooth ext old vertBary0 m =
     (if length (halfedgeTangent old) = length (halfedge old)
      then InitializeOriginal ext
             (m\<lparr>vertPos := map (InterpTri old) (take (nat (NumVert m)) vertBary0) @
                              drop (length vertBary0) (vertPos m),
                 meshRelation := (meshRelation m)\<lparr>relOriginalID := newID ext\<rparr>\<rparr>)
      else m)"

definition Refine_rest :: "externals \<Rightarrow> Impl \<Rightarrow> Barycentric list \<times> Impl \<Rightarrow> fault + Impl" where
  "Refine_rest ext old r =
     (if fst r = [] then Inr (snd r)
      else Inr (Finish ext ((Refine_smooth ext old (fst r) (snd r))\<lparr>halfedgeTangent := []\<rparr>)))"

definition Refine :: "externals \<Rightarrow> Impl \<Rightarrow> (vec3 \<Rightarrow> int) \<Rightarrow> fault + Impl" where
  "Refine ext m edgeDivisions =
     (if IsEmpty m then Inr m
      else bnd (Subdivide ext m edgeDivisions) (Refine_rest ext m))"

section \<open>Concrete meshes\<close>

text \<open>
  The tetrahedron with corners \<open>(0,0,0)\<close>, \<open>(1,0,0)\<close>, \<open>(0,1,0)\<close>, \<open>(0,0,1)\<close>: three faces in
  the coordinate planes and one slanted face, each with its outward unit normal. The
  vertex normals are the normalised sums of the face normals weighted by the angle of
  the face at the vertex. The mesh has no properties yet.
\<close>

definition corner_tet :: Impl where
  "corner_tet =
    \<lparr>vertPos = [(0, 0, 0), (1, 0, 0), (0, 1, 0), (0, 0, 1)],
     halfedge =
     [\<lparr>startVert = 0, endVert = 2, pairedHalfedge = 8, face = 0\<rparr>,
      \<lparr>startVert = 2, endVert = 1, pairedHalfedge = 9, face = 0\<rparr>,
      \<lparr>startVert = 1, endVert = 0, pairedHalfedge = 3, face = 0\<rparr>,
      \<lparr>startVert = 0, endVert = 1, pairedHalfedge = 2, face = 1\<rparr>,
      \<lparr>startVert = 1, endVert = 3, pairedHalfedge = 11, face = 1\<rparr>,
      \<lparr>startVert = 3, endVert = 0, pairedHalfedge = 6, face = 1\<rparr>,
      \<lparr>startVert = 0, endVert = 3, pairedHalfedge = 5, face = 2\<rparr>,
      \<lparr>startVert = 3, endVert = 2, pairedHalfedge = 10, face = 2\<rparr>,
      \<lparr>startVert = 2, endVert = 0, pairedHalfedge = 0, face = 2\<rparr>,
      \<lparr>startVert = 1, endVert = 2, pairedHalfedge = 1, face = 3\<rparr>,
      \<lparr>startVert = 2, endVert = 3, pairedHalfedge = 7, face = 3\<rparr>,
      \<lparr>startVert = 3, endVert = 1, pairedHalfedge = 4, face = 3\<rparr>],
     vertNormal = [unit_normal (- 1, - 1, - 1),
                   unit_normal (4, 4 - 3 * sqrt 3, 4 - 3 * sqrt 3),
                   unit_normal (4 - 3 * sqrt 3, 4, 4 - 3 * sqrt 3),
                   unit_normal (4 - 3 * sqrt 3, 4 - 3 * sqrt 3, 4)],
     faceNormal = [(0, 0, - 1), (0, - 1, 0), (- 1, 0, 0), (1 / sqrt 3, 1 / sqrt 3, 1 / sqrt 3)],
     halfedgeTangent = [],
     meshRelation =
       \<lparr>relOriginalID = 0, numProp = 0, properties = [],
        triRef = [\<lparr>meshID = 0, originalID = 0, refTri = 0\<rparr>,
                  \<lparr>meshID = 0, originalID = 0, refTri = 1\<rparr>,
                  \<lparr>meshID = 0, originalID = 0, refTri = 2\<rparr>,
                  \<lparr>meshID = 0, originalID = 0, refTri = 3\<rparr>],
        triProperties = []\<rparr>\<rparr>"

text \<open>The same mesh with a property table of width 3 and the given triangles of it.\<close>

definition corner_tet1 :: "real list \<Rightarrow> Impl" where
  "corner_tet1 P = put_tables corner_tet 3 (P, [(0, 4, 5), (0, 5, 6), (0, 6, 4), (1, 2, 3)])"

text \<open>The mesh with no vertices and no half-edges.\<close>

definition empty_mesh :: Impl where
  "empty_mesh =
     \<lparr>vertPos = [], halfedge = [], vertNormal = [], faceNormal = [], halfedgeTangent = [],
      meshRelation = \<lparr>relOriginalID = - 1, numProp = 0, properties = [], triRef = [],
                       triProperties = []\<rparr>\<rparr>"

definition keep_mesh :: "ivec3 list \<Rightarrow> Impl \<Rightarrow> Impl" where
  "keep_mesh triVerts m = m"

definition same_mesh :: "Impl \<Rightarrow> Impl" where
  "same_mesh m = m"

definition idle_externals :: externals where
  "idle_externals =
     \<lparr>CreateHalfedges = keep_mesh, newID = 0, InitializeOriginal = same_mesh, Finish = same_mesh\<rparr>"

definition no_divisions :: "vec3 \<Rightarrow> int" where
  "no_divisions v = 0"

definition one_division :: "vec3 \<Rightarrow> int" where
  "one_division v = 1"

text \<open>A second call of \<open>SetNormals\<close> with the same arguments, and what is compared.\<close>

definition SetNormals_again :: "int \<Rightarrow> real \<Rightarrow> Impl \<Rightarrow> Impl option" where
  "SetNormals_again normalIdx minSharpAngle m = SetNormals m normalIdx minSharpAngle"

definition table_shape :: "Impl \<Rightarrow> nat \<times> ivec3 list" where
  "table_shape m = (length (properties (meshRelation m)), triProperties (meshRelation m))"

text \<open>
  The tetrahedron with a property table of normals, one property vertex per mesh vertex
  but for vertex 0: its corner in triangle 0 has the normal \<open>(0,0,1)\<close>, its corners in
  triangles 1 and 2 the normal \<open>(0,0,-1)\<close>.
\<close>

definition crease_tet :: Impl where
  "crease_tet =
     put_tables corner_tet 3
       ([0, 0, 1, 0, 0, - 1, 1, 0, 0, 0, 1, 0, 0, 0, 1],
        [(0, 3, 2), (1, 2, 4), (1, 4, 3), (2, 3, 4)])"

text \<open>
  The octahedron with top vertex 0, equator 1 to 4 and bottom vertex 5. Triangles 0, 1, 2
  (three in a row round the top) refer to one face, triangles 3 and 7 (across an edge of
  the equator) to another, and every other triangle to a face of its own.
\<close>

definition octa :: Impl where
  "octa =
    \<lparr>vertPos = [(0, 0, 1), (1, 0, 0), (0, 1, 0), (- 1, 0, 0), (0, - 1, 0), (0, 0, - 1)],
     halfedge =
     [\<lparr>startVert = 0, endVert = 1, pairedHalfedge = 11, face = 0\<rparr>,
      \<lparr>startVert = 1, endVert = 2, pairedHalfedge = 13, face = 0\<rparr>,
      \<lparr>startVert = 2, endVert = 0, pairedHalfedge = 3, face = 0\<rparr>,
      \<lparr>startVert = 0, endVert = 2, pairedHalfedge = 2, face = 1\<rparr>,
      \<lparr>startVert = 2, endVert = 3, pairedHalfedge = 16, face = 1\<rparr>,
      \<lparr>startVert = 3, endVert = 0, pairedHalfedge = 6, face = 1\<rparr>,
      \<lparr>startVert = 0, endVert = 3, pairedHalfedge = 5, face = 2\<rparr>,
      \<lparr>startVert = 3, endVert = 4, pairedHalfedge = 19, face = 2\<rparr>,
      \<lparr>startVert = 4, endVert = 0, pairedHalfedge = 9, face = 2\<rparr>,
      \<lparr>startVert = 0, endVert = 4, pairedHalfedge = 8, face = 3\<rparr>,
      \<lparr>startVert = 4, endVert = 1, pairedHalfedge = 22, face = 3\<rparr>,
      \<lparr>startVert = 1, endVert = 0, pairedHalfedge = 0, face = 3\<rparr>,
      \<lparr>startVert = 5, endVert = 2, pairedHalfedge = 17, face = 4\<rparr>,
      \<lparr>startVert = 2, endVert = 1, pairedHalfedge = 1, face = 4\<rparr>,
      \<lparr>startVert = 1, endVert = 5, pairedHalfedge = 21, face = 4\<rparr>,
      \<lparr>startVert = 5, endVert = 3, pairedHalfedge = 20, face = 5\<rparr>,
      \<lparr>startVert = 3, endVert = 2, pairedHalfedge = 4, face = 5\<rparr>,
      \<lparr>startVert = 2, endVert = 5, pairedHalfedge = 12, face = 5\<rparr>,
      \<lparr>startVert = 5, endVert = 4, pairedHalfedge = 23, face = 6\<rparr>,
      \<lparr>startVert = 4, endVert = 3, pairedHalfedge = 7, face = 6\<rparr>,
      \<lparr>startVert = 3, endVert = 5, pairedHalfedge = 15, face = 6\<rparr>,
      \<lparr>startVert = 5, endVert = 1, pairedHalfedge = 14, face = 7\<rparr>,
      \<lparr>startVert = 1, endVert = 4, pairedHalfedge = 10, face = 7\<rparr>,
      \<lparr>startVert = 4, endVert = 5, pairedHalfedge = 18, face = 7\<rparr>],
     vertNormal = [(0, 0, 1), (1, 0, 0), (0, 1, 0), (- 1, 0, 0), (0, - 1, 0), (0, 0, - 1)],
     faceNormal =
     [unit_normal (1, 1, 1),
      unit_normal (- 1, 1, 1),
      unit_normal (- 1, - 1, 1),
      unit_normal (1, - 1, 1),
      unit_normal (1, 1, - 1),
      unit_normal (- 1, 1, - 1),
      unit_normal (- 1, - 1, - 1),
      unit_normal (1, - 1, - 1)],
     halfedgeTangent = [],
     meshRelation =
       \<lparr>relOriginalID = 0, numProp = 0, properties = [],
        triRef = [\<lparr>meshID = 0, originalID = 0, refTri = 0\<rparr>,
                  \<lparr>meshID = 0, originalID = 0, refTri = 0\<rparr>,
                  \<lparr>meshID = 0, originalID = 0, refTri = 0\<rparr>,
                  \<lparr>meshID = 0, originalID = 0, refTri = 3\<rparr>,
                  \<lparr>meshID = 0, originalID = 0, refTri = 4\<rparr>,
                  \<lparr>meshID = 0, originalID = 0, refTri = 5\<rparr>,
                  \<lparr>meshID = 0, originalID = 0, refTri = 6\<rparr>,
                  \<lparr>meshID = 0, originalID = 0, refTri = 3\<rparr>],
        triProperties = []\<rparr>\<rparr>"

section \<open>What FlatFaces marks\<close>

text \<open>
  The description of \<open>FlatFaces\<close>, to be compared with the loop: the neighbour of
  triangle \<open>t\<close> across its edge \<open>j\<close>, whether that neighbour has the same face as \<open>t\<close>,
  and how many of the three do. A triangle is flat by the description when two or more
  of its neighbours have its face, or when it is such a neighbour of a triangle with two
  or more.
\<close>

definition neighborTri :: "Impl \<Rightarrow> int \<Rightarrow> int \<Rightarrow> int" where
  "neighborTri m t j = face (rd (halfedge m) (pairedHalfedge (rd (halfedge m) (3 * t + j))))"

definition same_face_neighbor :: "Impl \<Rightarrow> int \<Rightarrow> int \<Rightarrow> bool" where
  "same_face_neighbor m t j =
     SameFace (rd (triRef (meshRelation m)) (neighborTri m t j)) (rd (triRef (meshRelation m)) t)"

definition num_same_face :: "Impl \<Rightarrow> int \<Rightarrow> int" where
  "num_same_face m t = int (length (filter (same_face_neighbor m t) [0, 1, 2]))"

definition matching_neighbor :: "Impl \<Rightarrow> int \<Rightarrow> int \<Rightarrow> bool" where
  "matching_neighbor m s t =
     list_ex (\<lambda>j. same_face_neighbor m s j \<and> neighborTri m s j = t) [0, 1, 2]"

definition marked_from :: "Impl \<Rightarrow> int \<Rightarrow> int \<Rightarrow> bool" where
  "marked_from m t s = (num_same_face m s > 1 \<and> matching_neighbor m s t)"

definition flat_by_spec :: "Impl \<Rightarrow> int \<Rightarrow> bool" where
  "flat_by_spec m t = (num_same_face m t > 1 \<or> list_ex (marked_from m t) [0..NumTri m - 1])"

text \<open>Every neighbour across an edge is a triangle of the mesh.\<close>

definition neighbor_in_range :: "Impl \<Rightarrow> int \<Rightarrow> int \<Rightarrow> bool" where
  "neighbor_in_range m t j = (0 \<le> neighborTri m t j \<and> neighborTri m t j < NumTri m)"

definition neighbors_in_range :: "Impl \<Rightarrow> bool" where
  "neighbors_in_range m =
     list_all (\<lambda>t. list_all (neighbor_in_range m t) [0, 1, 2]) [0..NumTri m - 1]"

text \<open>
  A strip of three: the middle triangle \<open>b\<close> has the two different triangles \<open>a\<close> and \<open>c\<close>
  as neighbours with its face. A pair on its own: \<open>a\<close> and \<open>b\<close> are neighbours with the
  same face, each has no other such neighbour, and no other triangle has one of them as
  such a neighbour.
\<close>

definition strip3 :: "Impl \<Rightarrow> int \<Rightarrow> int \<Rightarrow> int \<Rightarrow> bool" where
  "strip3 m a b c =
     (0 \<le> b \<and> b < NumTri m \<and> a \<noteq> c \<and> matching_neighbor m b a \<and> matching_neighbor m b c)"

definition only_from :: "Impl \<Rightarrow> int \<Rightarrow> int \<Rightarrow> int \<Rightarrow> bool" where
  "only_from m a b s =
     (s = a \<or> s = b \<or> \<not> (matching_neighbor m s a \<or> matching_neighbor m s b))"

definition lone_pair :: "Impl \<Rightarrow> int \<Rightarrow> int \<Rightarrow> bool" where
  "lone_pair m a b =
     (0 \<le> a \<and> a < NumTri m \<and> 0 \<le> b \<and> b < NumTri m \<and>
      matching_neighbor m a b \<and> matching_neighbor m b a \<and>
      num_same_face m a = 1 \<and> num_same_face m b = 1 \<and>
      list_all (only_from m a b) [0..NumTri m - 1])"

section \<open>Meshes that Subdivide can take\<close>

text \<open>
  What \<open>Subdivide\<close> relies on in its input: there are half-edges, three per triangle;
  every half-edge starts at a vertex of the mesh; and the pairing is an involution on
  the half-edges that flips the direction, so that one half-edge of each pair is the
  forward one.
\<close>

definition halfedge_ok :: "Impl \<Rightarrow> int \<times> Halfedge \<Rightarrow> bool" where
  "halfedge_ok m ih =
     (0 \<le> startVert (snd ih) \<and> startVert (snd ih) < NumVert m \<and>
      0 \<le> pairedHalfedge (snd ih) \<and> pairedHalfedge (snd ih) < int (length (halfedge m)) \<and>
      pairedHalfedge (rd (halfedge m) (pairedHalfedge (snd ih))) = fst ih \<and>
      IsForward (rd (halfedge m) (pairedHalfedge (snd ih))) = (\<not> IsForward (snd ih)))"

definition manifold_ok :: "Impl \<Rightarrow> bool" where
  "manifold_ok m =
     (halfedge m \<noteq> [] \<and> tmod (int (length (halfedge m))) 3 = 0 \<and>
      list_all (halfedge_ok m) (zip [0..int (length (halfedge m)) - 1] (halfedge m)))"

text \<open>The two entries of \<open>half2Edge\<close> that the run of \<open>ReindexHalfedge\<close> for one edge writes.\<close>

definition writes_to :: "Impl \<Rightarrow> int \<times> TmpEdge \<Rightarrow> int \<Rightarrow> bool" where
  "writes_to m ke h =
     (h = halfedgeIdx (snd ke) \<or> h = pairedHalfedge (rd (halfedge m) (halfedgeIdx (snd ke))))"

text \<open>The partition of a triangle with no point inserted on any edge.\<close>

definition p111 :: Partition where
  "p111 = \<lparr>idx = (0, 1, 2), sortedDivisions = (1, 1, 1),
           vertBary = [(1, 0, 0), (0, 1, 0), (0, 0, 1)], triVert = [(0, 1, 2)]\<rparr>"

section \<open>What a call of PartitionQuad needs\<close>






section \<open>Results on the partition\<close>

text \<open>
  C8. \<open>GetPartition((3,1,1))\<close> returns five vertices, the three corners followed by the two
  points inserted along edge 0, and three triangles that all end in vertex 2: the fan
  \<open>(0,3,2), (3,4,2), (4,1,2)\<close>.
\<close>

theorem GetPartition_311:
  "GetPartition (3, 1, 1) =
     Inr \<lparr>idx = (0, 1, 2), sortedDivisions = (3, 1, 1),
          vertBary = [(1, 0, 0), (0, 1, 0), (0, 0, 1), (2 / 3, 1 / 3, 0), (1 / 3, 2 / 3, 0)],
          triVert = [(0, 3, 2), (3, 4, 2), (4, 1, 2)]\<rparr>"
  by (simp add: GetPartition_def GetCachedPartition_def sort_divisions_def set_idx_def
      mk_partition_def edge_barys_def edge_bary_edge_def edge_bary_step_def PartitionFan_def
      fan_step_def swap3_def bnd_def tmod_def tdiv_def mix_def upto.simps Let_def)

section \<open>Results on the tangents\<close>

lemma tangent_weight_pos: "0 < tangent_weight dir edgeVec"
  by (simp add: tangent_weight_def)

text \<open>
  C3. For every direction \<open>d\<close> and every edge vector \<open>e\<close>, \<open>CircularTangent(d, e)\<close> is the
  4-vector of the procedure in the specification. Both normalise with \<open>SafeNormalize\<close>,
  so the two agree wherever that gives the zero vector; the weight is positive and so is
  the last component of \<open>B3\<close>, so no division of the source is by zero.
\<close>

theorem CircularTangent_matches:
  "CircularTangent d e = CircularTangent_spec d e"
proof -
  have w: "tangent_weight (SafeNormalize d) e \<noteq> 0"
    using tangent_weight_pos [of "SafeNormalize d" e] by simp
  have "0 < mix 1 (tangent_weight (SafeNormalize d) e) (2 / 3)"
    using tangent_weight_pos [of "SafeNormalize d" e] by (simp add: mix_def)
  then have b: "mix 1 (tangent_weight (SafeNormalize d) e) (2 / 3) \<noteq> 0" by simp
  have t: "(if \<bar>dot (SafeNormalize d) (SafeNormalize e)\<bar> = 0 then 1
            else \<bar>dot (SafeNormalize d) (SafeNormalize e)\<bar>) = tangent_weight (SafeNormalize d) e"
    by (simp add: tangent_weight_def)
  show ?thesis
    unfolding CircularTangent_spec_def CircularTangent_def Let_def t
    using w b by (simp add: bz2_of_def geometric_def fdiv_def)
qed

text \<open>
  The degenerate inputs: a zero direction gives \<open>(0, 0, 0, 1)\<close> whatever the edge, and an
  edge of length zero gives a zero tangent of weight 1.
\<close>

lemma dot_zero: "dot (0, 0, 0) v = 0" "dot v (0, 0, 0) = 0"
  by (cases v; simp)+

lemma CircularTangent_no_direction: "CircularTangent (0, 0, 0) e = (0, 0, 0, 1)"
  by (simp add: CircularTangent_def SafeNormalize_def glm_normalize_def tangent_weight_def
      bz2_of_def geometric_def fdiv_def mix_def dot_zero)

lemma CircularTangent_no_edge: "CircularTangent d (0, 0, 0) = (0, 0, 0, 1)"
  by (simp add: CircularTangent_def SafeNormalize_def glm_normalize_def tangent_weight_def
      bz2_of_def geometric_def fdiv_def mix_def vlength_def dot_zero)

section \<open>Results on SetNormals\<close>

subsection \<open>Evaluation\<close>

text \<open>
  The rules that evaluate the model on a concrete mesh. The fields of the mesh are given
  by equations of their own, and the bodies of \<open>let\<close> and \<open>case\<close> are only entered
  once what they bind is known.
\<close>

lemma replicate_num: "replicate (numeral k) x = x # replicate (pred_numeral k) x"
  by (simp add: numeral_eq_Suc)

lemmas ev = Let_def upto.simps rd_def wr_def tdiv_def tmod_def replicate_num

lemmas evc = let_weak_cong prod.case_cong_weak

lemmas sn_defs = SetNormals_def SetNormals_tables_def put_tables_def oldTriProp_of_def
  SetNormals_tri_def SetNormals_corner_def
  creased_groups_def creased_assign_def assign_step_def group_step_def seek_step_def
  smooth_step_def seeking_def not_at_def do_while_def while_option_unfold tabs_of3_def tabs_of6_def
  update_row_def write_normal_def normal_step_def copy_row_def copy_step_def add_last_def propVerts_def
  face_break_def faceSplit_def dihedral_def incr_def sharp_step_def vertNumSharp_of_def
  set_triProp_def default_triProp_def
  around_def NextHalfedge_def IsForward_def SameFace_def IsEmpty_def NumVert_def NumTri_def
  NumProp_def NumPropVert_def
  FlatFaces_def FlatFaces_tri_def flat_neighbors_def neighbor_step_def mark_step_def
  VertFlatFace_def vff_tri_def vff_step_def

lemma corner_tet_fields:
  "vertPos corner_tet = [(0, 0, 0), (1, 0, 0), (0, 1, 0), (0, 0, 1)]"
  "halfedge corner_tet =
     [\<lparr>startVert = 0, endVert = 2, pairedHalfedge = 8, face = 0\<rparr>,
      \<lparr>startVert = 2, endVert = 1, pairedHalfedge = 9, face = 0\<rparr>,
      \<lparr>startVert = 1, endVert = 0, pairedHalfedge = 3, face = 0\<rparr>,
      \<lparr>startVert = 0, endVert = 1, pairedHalfedge = 2, face = 1\<rparr>,
      \<lparr>startVert = 1, endVert = 3, pairedHalfedge = 11, face = 1\<rparr>,
      \<lparr>startVert = 3, endVert = 0, pairedHalfedge = 6, face = 1\<rparr>,
      \<lparr>startVert = 0, endVert = 3, pairedHalfedge = 5, face = 2\<rparr>,
      \<lparr>startVert = 3, endVert = 2, pairedHalfedge = 10, face = 2\<rparr>,
      \<lparr>startVert = 2, endVert = 0, pairedHalfedge = 0, face = 2\<rparr>,
      \<lparr>startVert = 1, endVert = 2, pairedHalfedge = 1, face = 3\<rparr>,
      \<lparr>startVert = 2, endVert = 3, pairedHalfedge = 7, face = 3\<rparr>,
      \<lparr>startVert = 3, endVert = 1, pairedHalfedge = 4, face = 3\<rparr>]"
  "faceNormal corner_tet = [(0, 0, - 1), (0, - 1, 0), (- 1, 0, 0), (1 / sqrt 3, 1 / sqrt 3, 1 / sqrt 3)]"
  "halfedgeTangent corner_tet = []"
  "meshRelation corner_tet =
       \<lparr>relOriginalID = 0, numProp = 0, properties = [],
        triRef = [\<lparr>meshID = 0, originalID = 0, refTri = 0\<rparr>,
                  \<lparr>meshID = 0, originalID = 0, refTri = 1\<rparr>,
                  \<lparr>meshID = 0, originalID = 0, refTri = 2\<rparr>,
                  \<lparr>meshID = 0, originalID = 0, refTri = 3\<rparr>],
        triProperties = []\<rparr>"
  by (simp_all add: corner_tet_def)

lemma corner_tet_vn: "length (vertNormal corner_tet) = 4"
  by (simp add: corner_tet_def)

lemma corner_tet1_fields:
  "vertPos (corner_tet1 P) = [(0, 0, 0), (1, 0, 0), (0, 1, 0), (0, 0, 1)]"
  "halfedge (corner_tet1 P) =
     [\<lparr>startVert = 0, endVert = 2, pairedHalfedge = 8, face = 0\<rparr>,
      \<lparr>startVert = 2, endVert = 1, pairedHalfedge = 9, face = 0\<rparr>,
      \<lparr>startVert = 1, endVert = 0, pairedHalfedge = 3, face = 0\<rparr>,
      \<lparr>startVert = 0, endVert = 1, pairedHalfedge = 2, face = 1\<rparr>,
      \<lparr>startVert = 1, endVert = 3, pairedHalfedge = 11, face = 1\<rparr>,
      \<lparr>startVert = 3, endVert = 0, pairedHalfedge = 6, face = 1\<rparr>,
      \<lparr>startVert = 0, endVert = 3, pairedHalfedge = 5, face = 2\<rparr>,
      \<lparr>startVert = 3, endVert = 2, pairedHalfedge = 10, face = 2\<rparr>,
      \<lparr>startVert = 2, endVert = 0, pairedHalfedge = 0, face = 2\<rparr>,
      \<lparr>startVert = 1, endVert = 2, pairedHalfedge = 1, face = 3\<rparr>,
      \<lparr>startVert = 2, endVert = 3, pairedHalfedge = 7, face = 3\<rparr>,
      \<lparr>startVert = 3, endVert = 1, pairedHalfedge = 4, face = 3\<rparr>]"
  "faceNormal (corner_tet1 P) = [(0, 0, - 1), (0, - 1, 0), (- 1, 0, 0), (1 / sqrt 3, 1 / sqrt 3, 1 / sqrt 3)]"
  "halfedgeTangent (corner_tet1 P) = []"
  "meshRelation (corner_tet1 P) =
       \<lparr>relOriginalID = 0, numProp = 3, properties = P,
        triRef = [\<lparr>meshID = 0, originalID = 0, refTri = 0\<rparr>,
                  \<lparr>meshID = 0, originalID = 0, refTri = 1\<rparr>,
                  \<lparr>meshID = 0, originalID = 0, refTri = 2\<rparr>,
                  \<lparr>meshID = 0, originalID = 0, refTri = 3\<rparr>],
        triProperties = [(0, 4, 5), (0, 5, 6), (0, 6, 4), (1, 2, 3)]\<rparr>"
  by (simp_all add: corner_tet1_def put_tables_def corner_tet_def)

lemma corner_tet1_vn: "length (vertNormal (corner_tet1 P)) = 4"
  by (simp add: corner_tet1_def put_tables_def corner_tet_def)

text \<open>
  The angles between the face normals of the tetrahedron: 90 degrees between two faces
  in coordinate planes, more than 120 degrees between one of them and the slanted face.
\<close>

lemma deg_flat: "degrees (pi / 2) = 90"
  by (simp add: degrees_def)

lemma sqrt3_lt2: "sqrt 3 < 2"
  by (rule real_less_lsqrt) simp_all

lemma deg_slant: "100 < degrees (arccos (- (1 / sqrt 3)))"
proof -
  have a: "arccos (1 / 2) = pi / 3"
    using arccos_cos [of "pi / 3"] by (simp add: cos_60)
  have b: "arccos (- (1 / 2)) = 2 * pi / 3"
    using arccos_minus [of "1 / 2"] a by simp
  have c: "1 / 2 < 1 / sqrt 3"
    using sqrt3_lt2 by (simp add: field_simps)
  have d: "1 / sqrt 3 \<le> 1" by simp
  have "arccos (- (1 / 2)) < arccos (- (1 / sqrt 3))"
    by (rule arccos_less_arccos) (use c d in simp_all)
  then have e: "2 * pi / 3 < arccos (- (1 / sqrt 3))" using b by simp
  have "120 * pi < arccos (- (1 / sqrt 3)) * 180" using e by simp
  then have "120 < arccos (- (1 / sqrt 3)) * 180 / pi"
    by (simp add: pos_less_divide_eq)
  then show ?thesis by (simp add: degrees_def)
qed

lemma first_call:
  "\<exists>P. SetNormals_tables corner_tet 0 100 =
          Some (P, [(0, 4, 5), (0, 5, 6), (0, 6, 4), (1, 2, 3)]) \<and> length P = 21"
  by (simp add: sn_defs corner_tet_fields corner_tet_vn ev deg_flat deg_slant cong: evc)

lemma second_call:
  "length P = 21 \<Longrightarrow>
   map_option table_shape (SetNormals (corner_tet1 P) 0 100) =
     Some (30, [(0, 7, 5), (0, 8, 6), (0, 9, 4), (1, 2, 3)])"
  by (simp add: table_shape_def sn_defs corner_tet1_fields corner_tet1_vn ev deg_flat deg_slant
      option.map_comp comp_def cong: evc)

text \<open>
  C5. On the tetrahedron, \<open>SetNormals(0, 100)\<close> leaves a property table of 21 floats (7
  property vertices) and the triangles \<open>(0,4,5), (0,5,6), (0,6,4), (1,2,3)\<close> of it. The
  second call with the same arguments leaves 30 floats (10 property vertices) and the
  triangles \<open>(0,7,5), (0,8,6), (0,9,4), (1,2,3)\<close>: it is not idempotent.
\<close>

theorem SetNormals_twice_corner_tet:
  "map_option table_shape (SetNormals corner_tet 0 100) =
     Some (21, [(0, 4, 5), (0, 5, 6), (0, 6, 4), (1, 2, 3)]) \<and>
   map_option table_shape (Option.bind (SetNormals corner_tet 0 100) (SetNormals_again 0 100)) =
     Some (30, [(0, 7, 5), (0, 8, 6), (0, 9, 4), (1, 2, 3)])"
proof -
  obtain P where P: "SetNormals_tables corner_tet 0 100 =
      Some (P, [(0, 4, 5), (0, 5, 6), (0, 6, 4), (1, 2, 3)])" and len: "length P = 21"
    using first_call by blast
  have ne: "\<not> IsEmpty corner_tet" by (simp add: IsEmpty_def NumVert_def corner_tet_fields)
  have np: "max (NumProp corner_tet) (0 + 3) = 3"
    by (simp add: NumProp_def corner_tet_fields)
  have once: "SetNormals corner_tet 0 100 = Some (corner_tet1 P)"
    using ne np by (simp add: SetNormals_def P corner_tet1_def)
  have shape: "table_shape (corner_tet1 P) = (21, [(0, 4, 5), (0, 5, 6), (0, 6, 4), (1, 2, 3)])"
    by (simp add: table_shape_def corner_tet1_fields len)
  show ?thesis
    using second_call [OF len] by (simp add: once shape SetNormals_again_def)
qed

text \<open>
  C10. For every mesh and every negative \<open>normalIdx\<close>, \<open>SetNormals\<close> returns at once and
  the mesh is as it was.
\<close>

theorem SetNormals_negative_index:
  "normalIdx < 0 \<Longrightarrow> SetNormals m normalIdx minSharpAngle = Some m"
  by (simp add: SetNormals_def)

theorem SetNormals_negative_index_witness:
  "(- 1 :: int) < 0 \<and> SetNormals corner_tet (- 1) 100 = Some corner_tet"
  using SetNormals_negative_index [of "- 1" corner_tet 100] by simp

section \<open>Results on the empty mesh\<close>

lemma edge_entry_smooth:
  "\<forall>e \<in> set es. 1 \<le> smoothness e \<Longrightarrow> fold (edge_entry m) es acc = acc"
  by (induction es arbitrary: acc) (simp_all add: edge_entry_def)

text \<open>
  C2, as the code has it. On a mesh with no vertices, no half-edges and no tangents,
  \<open>SetNormals\<close>, \<open>CreateTangents(normalIdx)\<close>, \<open>CreateTangents(sharpenedEdges)\<close> (for a
  list in which no edge has a smoothness below 1, the empty list among them) and \<open>Refine\<close>
  return and leave the mesh as it was.
\<close>

theorem empty_mesh_unchanged:
  assumes "vertPos m = []" and "halfedge m = []" and "halfedgeTangent m = []"
    and "\<forall>e \<in> set sharpenedEdges. 1 \<le> smoothness e"
  shows "SetNormals m normalIdx minSharpAngle = Some m \<and>
         CreateTangents_normal m normalIdx kTolerance = Some m \<and>
         CreateTangents_edges m sharpenedEdges = Some m \<and>
         Refine ext m edgeDivisions = Inr m"
proof -
  have nv: "NumVert m = 0" and nt: "NumTri m = 0"
    using assms by (simp_all add: NumVert_def NumTri_def tdiv_def)
  have tang: "set_tangents m [] = m"
    using assms by (simp add: set_tangents_def)
  have a: "SetNormals m normalIdx minSharpAngle = Some m"
    using nv by (simp add: SetNormals_def IsEmpty_def)
  have b: "CreateTangents_normal m normalIdx kTolerance = Some m"
    using assms nv tang
    by (simp add: CreateTangents_normal_def vertSharp_def smooth_crease_def)
  have c: "CreateTangents_edges m sharpenedEdges = Some m"
    using assms nv nt tang edge_entry_smooth [of sharpenedEdges m "[]"]
    by (simp add: CreateTangents_edges_def Let_def)
  have d: "Refine ext m edgeDivisions = Inr m"
    using nv by (simp add: Refine_def IsEmpty_def)
  show ?thesis using a b c d by simp
qed

theorem empty_mesh_unchanged_witness:
  "SetNormals empty_mesh 0 60 = Some empty_mesh \<and>
   CreateTangents_normal empty_mesh 0 (1 / 100000) = Some empty_mesh \<and>
   CreateTangents_edges empty_mesh [\<lparr>sHalfedge = 0, smoothness = 1\<rparr>] = Some empty_mesh \<and>
   Refine idle_externals empty_mesh one_division = Inr empty_mesh"
  using empty_mesh_unchanged [of empty_mesh "[\<lparr>sHalfedge = 0, smoothness = 1\<rparr>]" 0 60
      "1 / 100000" idle_externals one_division]
  by (simp add: empty_mesh_def)

text \<open>
  \<open>Subdivide\<close> itself has no test for the empty mesh: with no edges, \<open>edgeOffset.back()\<close>
  is taken of an empty vector.
\<close>

theorem Subdivide_empty_mesh:
  "Subdivide idle_externals empty_mesh one_division = Inl OutOfRange"
  by (simp add: Subdivide_def Subdivide_core_def CreateTmpEdges_def empty_mesh_def vec_back_def
      bnd_def Let_def)

section \<open>Results on the crease\<close>

lemma crease_tet_fields:
  "vertPos crease_tet = [(0, 0, 0), (1, 0, 0), (0, 1, 0), (0, 0, 1)]"
  "halfedge crease_tet =
     [\<lparr>startVert = 0, endVert = 2, pairedHalfedge = 8, face = 0\<rparr>,
      \<lparr>startVert = 2, endVert = 1, pairedHalfedge = 9, face = 0\<rparr>,
      \<lparr>startVert = 1, endVert = 0, pairedHalfedge = 3, face = 0\<rparr>,
      \<lparr>startVert = 0, endVert = 1, pairedHalfedge = 2, face = 1\<rparr>,
      \<lparr>startVert = 1, endVert = 3, pairedHalfedge = 11, face = 1\<rparr>,
      \<lparr>startVert = 3, endVert = 0, pairedHalfedge = 6, face = 1\<rparr>,
      \<lparr>startVert = 0, endVert = 3, pairedHalfedge = 5, face = 2\<rparr>,
      \<lparr>startVert = 3, endVert = 2, pairedHalfedge = 10, face = 2\<rparr>,
      \<lparr>startVert = 2, endVert = 0, pairedHalfedge = 0, face = 2\<rparr>,
      \<lparr>startVert = 1, endVert = 2, pairedHalfedge = 1, face = 3\<rparr>,
      \<lparr>startVert = 2, endVert = 3, pairedHalfedge = 7, face = 3\<rparr>,
      \<lparr>startVert = 3, endVert = 1, pairedHalfedge = 4, face = 3\<rparr>]"
  "faceNormal crease_tet = [(0, 0, - 1), (0, - 1, 0), (- 1, 0, 0), (1 / sqrt 3, 1 / sqrt 3, 1 / sqrt 3)]"
  "halfedgeTangent crease_tet = []"
  "meshRelation crease_tet =
       \<lparr>relOriginalID = 0, numProp = 3,
        properties = [0, 0, 1, 0, 0, - 1, 1, 0, 0, 0, 1, 0, 0, 0, 1],
        triRef = [\<lparr>meshID = 0, originalID = 0, refTri = 0\<rparr>,
                  \<lparr>meshID = 0, originalID = 0, refTri = 1\<rparr>,
                  \<lparr>meshID = 0, originalID = 0, refTri = 2\<rparr>,
                  \<lparr>meshID = 0, originalID = 0, refTri = 3\<rparr>],
        triProperties = [(0, 3, 2), (1, 2, 4), (1, 4, 3), (2, 3, 4)]\<rparr>"
  by (simp_all add: crease_tet_def put_tables_def corner_tet_def)

lemma cross_colinear: "cross a (smul k a) = (0, 0, 0)" "cross (smul k a) a = (0, 0, 0)"
  by (cases a; simp)+

lemma glm_normalize_zero: "glm_normalize (0, 0, 0) = None"
  by (simp add: glm_normalize_def)

text \<open>
  The first loop of \<open>CreateTangents(0)\<close> on this mesh records the two half-edges 0 and 3
  at vertex 0 and none elsewhere, and the whole call leaves the tangents of the smooth
  pass.
\<close>

lemmas ct_defs = vertSharp_def sharp_edge_step_def ForVertT_def ForVert_step_def do_while_def
  while_option_unfold not_at_def sharp_op_def normal_at_def put_sharp_def GetNormal_def around_def
  NextHalfedge_def NumVert_def

lemma vertSharp_crease_tet:
  "vertSharp crease_tet 0 (1 / 100000) =
     Some ([(0, 0, - 1), (1, 0, 0), (0, 1, 0), (0, 0, 1)],
           [(0, 3), (- 1, - 1), (- 1, - 1), (- 1, - 1)])"
  by (simp add: ct_defs crease_tet_fields ev cong: evc)

lemma CreateTangents_crease_tet:
  "CreateTangents_normal crease_tet 0 (1 / 100000) =
     Some (set_tangents crease_tet
             (map (SmoothBezier crease_tet [(0, 0, - 1), (1, 0, 0), (0, 1, 0), (0, 0, 1)])
                  (halfedge crease_tet)))"
  by (simp add: CreateTangents_normal_def vertSharp_crease_tet smooth_crease_def crease_vert_def
      GetNormal_def NumVert_def glm_normalize_def crease_tet_fields ev cong: evc)

text \<open>
  C9. In the last loop of \<open>CreateTangents(normalIdx)\<close>, at a vertex whose entry of
  \<open>vertSharpHalfedge\<close> holds two half-edges (neither is \<open>-1\<close>) with colinear property
  normals, one a multiple of the other, the iteration leaves every tangent as it was:
  those of the two sharp half-edges and of every other half-edge alike.
\<close>

theorem crease_colinear_skipped:
  assumes "rd vertSharpHalfedge vert = (h1, h2)" and "h1 \<noteq> - 1" and "h2 \<noteq> - 1"
    and "GetNormal m h2 normalIdx = smul k (GetNormal m h1 normalIdx) \<or>
         GetNormal m h1 normalIdx = smul k (GetNormal m h2 normalIdx)"
  shows "crease_vert m normalIdx vertSharpHalfedge vert tangents = Some tangents"
proof -
  have "cross (GetNormal m h1 normalIdx) (GetNormal m h2 normalIdx) = (0, 0, 0)"
    using assms(4) cross_colinear [where a = "GetNormal m h1 normalIdx" and k = k]
      cross_colinear [where a = "GetNormal m h2 normalIdx" and k = k] by auto
  then show ?thesis
    using assms(1-3) by (simp add: crease_vert_def glm_normalize_zero)
qed

theorem crease_colinear_skipped_witness:
  "rd [(0, 3), (- 1, - 1), (- 1, - 1), (- 1, - 1)] 0 = (0 :: int, 3 :: int) \<and>
   GetNormal crease_tet 0 0 = (0, 0, 1) \<and> GetNormal crease_tet 3 0 = smul (- 1) (0, 0, 1) \<and>
   crease_vert crease_tet 0 [(0, 3), (- 1, - 1), (- 1, - 1), (- 1, - 1)] 0
       (map (SmoothBezier crease_tet [(0, 0, - 1), (1, 0, 0), (0, 1, 0), (0, 0, 1)])
            (halfedge crease_tet)) =
     Some (map (SmoothBezier crease_tet [(0, 0, - 1), (1, 0, 0), (0, 1, 0), (0, 0, 1)])
               (halfedge crease_tet))"
  using crease_colinear_skipped [of "[(0, 3), (- 1, - 1), (- 1, - 1), (- 1, - 1)]" 0 0 3
      crease_tet 0 "- 1"
      "map (SmoothBezier crease_tet [(0, 0, - 1), (1, 0, 0), (0, 1, 0), (0, 0, 1)])
           (halfedge crease_tet)"]
  by (simp add: GetNormal_def crease_tet_fields ev)

section \<open>Results on FlatFaces\<close>

lemma flat_neighbors_fst: "fst (flat_neighbors m t) = num_same_face m t"
  by (simp add: flat_neighbors_def neighbor_step_def num_same_face_def same_face_neighbor_def
      neighborTri_def Let_def)

lemma flat_neighbors_snd:
  "snd (flat_neighbors m t) =
     (if same_face_neighbor m t 0 then neighborTri m t 0 else - 1,
      if same_face_neighbor m t 1 then neighborTri m t 1 else - 1,
      if same_face_neighbor m t 2 then neighborTri m t 2 else - 1)"
  by (simp add: flat_neighbors_def neighbor_step_def same_face_neighbor_def neighborTri_def Let_def)

lemma rd_wr:
  "0 \<le> i \<Longrightarrow> i < int (length xs) \<Longrightarrow> 0 \<le> k \<Longrightarrow> k < int (length xs) \<Longrightarrow>
   rd (wr xs i v) k = (if k = i then v else rd xs k)"
  by (auto simp add: rd_def wr_def)

lemma length_wr: "0 \<le> i \<Longrightarrow> i < int (length xs) \<Longrightarrow> length (wr xs i v) = length xs"
  by (simp add: wr_def)

lemma rd_replicate: "0 \<le> k \<Longrightarrow> k < int n \<Longrightarrow> rd (replicate n x) k = x"
  by (simp add: rd_def)

text \<open>One run of the kernel, and all of them.\<close>

lemma FlatFaces_tri_marks:
  assumes len: "length fl = nat (NumTri m)" and s: "0 \<le> s" "s < NumTri m"
    and ok: "list_all (neighbor_in_range m s) [0, 1, 2]"
  shows "length (FlatFaces_tri m s fl) = length fl"
    and "0 \<le> t \<Longrightarrow> t < NumTri m \<Longrightarrow>
         rd (FlatFaces_tri m s fl) t =
           (rd fl t \<or> (num_same_face m s > 1 \<and> (t = s \<or> matching_neighbor m s t)))"
proof -
  have r: "0 \<le> neighborTri m s 0" "neighborTri m s 0 < int (length fl)"
      "0 \<le> neighborTri m s 1" "neighborTri m s 1 < int (length fl)"
      "0 \<le> neighborTri m s 2" "neighborTri m s 2 < int (length fl)"
      "s < int (length fl)"
    using ok s len by (simp_all add: neighbor_in_range_def)
  show "length (FlatFaces_tri m s fl) = length fl"
    using r s by (simp add: FlatFaces_tri_def flat_neighbors_fst flat_neighbors_snd mark_step_def
        length_wr)
  show "rd (FlatFaces_tri m s fl) t =
          (rd fl t \<or> (num_same_face m s > 1 \<and> (t = s \<or> matching_neighbor m s t)))"
    if "0 \<le> t" "t < NumTri m"
  proof -
    have t: "t < int (length fl)" using that len by simp
    show ?thesis
      using r s t that(1)
      by (auto simp add: FlatFaces_tri_def flat_neighbors_fst flat_neighbors_snd mark_step_def
          length_wr rd_wr matching_neighbor_def)
  qed
qed

lemma FlatFaces_fold_marks:
  assumes "length fl = nat (NumTri m)"
    and "\<forall>s \<in> set ss. 0 \<le> s \<and> s < NumTri m \<and> list_all (neighbor_in_range m s) [0, 1, 2]"
  shows "length (fold (FlatFaces_tri m) ss fl) = length fl \<and>
         (\<forall>t. 0 \<le> t \<and> t < NumTri m \<longrightarrow>
            rd (fold (FlatFaces_tri m) ss fl) t =
              (rd fl t \<or> (\<exists>s \<in> set ss. num_same_face m s > 1 \<and> (t = s \<or> matching_neighbor m s t))))"
  using assms
proof (induction ss arbitrary: fl)
  case Nil
  then show ?case by simp
next
  case (Cons s ss)
  have s: "0 \<le> s" "s < NumTri m" "list_all (neighbor_in_range m s) [0, 1, 2]"
    using Cons.prems(2) by simp_all
  have len: "length (FlatFaces_tri m s fl) = nat (NumTri m)"
    using FlatFaces_tri_marks(1) [OF Cons.prems(1) s] Cons.prems(1) by simp
  have rest: "\<forall>s \<in> set ss. 0 \<le> s \<and> s < NumTri m \<and> list_all (neighbor_in_range m s) [0, 1, 2]"
    using Cons.prems(2) by simp
  note ih = Cons.IH [OF len rest]
  have one: "\<And>t. 0 \<le> t \<Longrightarrow> t < NumTri m \<Longrightarrow>
      rd (FlatFaces_tri m s fl) t =
        (rd fl t \<or> (num_same_face m s > 1 \<and> (t = s \<or> matching_neighbor m s t)))"
    using FlatFaces_tri_marks(2) [OF Cons.prems(1) s] by blast
  show ?case
    using ih one len Cons.prems(1) by auto
qed

lemma FlatFaces_by_spec:
  assumes "neighbors_in_range m" and "0 \<le> t" and "t < NumTri m"
  shows "rd (FlatFaces m) t = flat_by_spec m t"
proof -
  have a: "\<forall>s \<in> set [0..NumTri m - 1].
      0 \<le> s \<and> s < NumTri m \<and> list_all (neighbor_in_range m s) [0, 1, 2]"
    using assms(1) by (simp add: neighbors_in_range_def list_all_iff)
  have b: "length (replicate (nat (NumTri m)) False) = nat (NumTri m)" by simp
  have "rd (FlatFaces m) t =
      (\<exists>s \<in> set [0..NumTri m - 1]. num_same_face m s > 1 \<and> (t = s \<or> matching_neighbor m s t))"
    using FlatFaces_fold_marks [OF b a] assms(2,3) by (simp add: FlatFaces_def rd_replicate)
  also have "\<dots> = flat_by_spec m t"
    using assms(2,3) by (auto simp add: flat_by_spec_def marked_from_def list_ex_iff)
  finally show ?thesis .
qed

lemma matching_neighbor_count:
  assumes "a \<noteq> c" and "matching_neighbor m b a" and "matching_neighbor m b c"
  shows "num_same_face m b > 1"
  using assms by (auto simp add: matching_neighbor_def num_same_face_def)

lemma matching_neighbor_in_range:
  assumes "neighbors_in_range m" and "0 \<le> b" and "b < NumTri m" and "matching_neighbor m b a"
  shows "0 \<le> a \<and> a < NumTri m"
proof -
  have "list_all (neighbor_in_range m b) [0, 1, 2]"
    using assms(1-3) by (simp add: neighbors_in_range_def list_all_iff)
  then show ?thesis
    using assms(4) by (auto simp add: matching_neighbor_def neighbor_in_range_def)
qed

text \<open>
  C6. On a mesh in which every neighbour across an edge is a triangle of the mesh,
  \<open>FlatFaces\<close> marks triangle \<open>t\<close> exactly when two or more of its three neighbours have
  the face of \<open>t\<close>, or \<open>t\<close> is a neighbour with the same face of a triangle that has two or
  more. So the three triangles of a strip are all marked, and neither triangle of a pair
  on its own is.
\<close>

theorem FlatFaces_marks:
  assumes ok: "neighbors_in_range m"
  shows "(0 \<le> t \<and> t < NumTri m \<longrightarrow> rd (FlatFaces m) t = flat_by_spec m t) \<and>
         (strip3 m a b c \<longrightarrow> rd (FlatFaces m) a \<and> rd (FlatFaces m) b \<and> rd (FlatFaces m) c) \<and>
         (lone_pair m p q \<longrightarrow> \<not> rd (FlatFaces m) p \<and> \<not> rd (FlatFaces m) q)"
proof (intro conjI impI)
  show "rd (FlatFaces m) t = flat_by_spec m t" if "0 \<le> t \<and> t < NumTri m"
    using FlatFaces_by_spec [OF ok] that by simp
next
  assume st: "strip3 m a b c"
  then have b: "0 \<le> b" "b < NumTri m" and ac: "a \<noteq> c"
    and ma: "matching_neighbor m b a" and mc: "matching_neighbor m b c"
    by (simp_all add: strip3_def)
  have cnt: "num_same_face m b > 1" using matching_neighbor_count [OF ac ma mc] .
  have ra: "0 \<le> a \<and> a < NumTri m" using matching_neighbor_in_range [OF ok b ma] .
  have rc: "0 \<le> c \<and> c < NumTri m" using matching_neighbor_in_range [OF ok b mc] .
  have fb: "flat_by_spec m b" using cnt by (simp add: flat_by_spec_def)
  have fa: "flat_by_spec m a"
    using cnt ma b by (auto simp add: flat_by_spec_def marked_from_def list_ex_iff)
  have fc: "flat_by_spec m c"
    using cnt mc b by (auto simp add: flat_by_spec_def marked_from_def list_ex_iff)
  show "rd (FlatFaces m) a" using FlatFaces_by_spec [OF ok] ra fa by simp
  show "rd (FlatFaces m) b" using FlatFaces_by_spec [OF ok] b fb by simp
  show "rd (FlatFaces m) c" using FlatFaces_by_spec [OF ok] rc fc by simp
next
  assume lp: "lone_pair m p q"
  then have p: "0 \<le> p" "p < NumTri m" and q: "0 \<le> q" "q < NumTri m"
    and np: "num_same_face m p = 1" and nq: "num_same_face m q = 1"
    and only: "list_all (only_from m p q) [0..NumTri m - 1]"
    by (simp_all add: lone_pair_def)
  have no: "\<not> marked_from m p s \<and> \<not> marked_from m q s" if "s \<in> set [0..NumTri m - 1]" for s
  proof -
    have "only_from m p q s" using only that by (simp add: list_all_iff)
    then show ?thesis using np nq by (auto simp add: only_from_def marked_from_def)
  qed
  have "\<not> flat_by_spec m p" using np no by (auto simp add: flat_by_spec_def list_ex_iff)
  then show "\<not> rd (FlatFaces m) p" using FlatFaces_by_spec [OF ok p] by simp
  have "\<not> flat_by_spec m q" using nq no by (auto simp add: flat_by_spec_def list_ex_iff)
  then show "\<not> rd (FlatFaces m) q" using FlatFaces_by_spec [OF ok q] by simp
qed

lemma octa_fields:
  "vertPos octa = [(0, 0, 1), (1, 0, 0), (0, 1, 0), (- 1, 0, 0), (0, - 1, 0), (0, 0, - 1)]"
  "halfedge octa =
     [\<lparr>startVert = 0, endVert = 1, pairedHalfedge = 11, face = 0\<rparr>,
      \<lparr>startVert = 1, endVert = 2, pairedHalfedge = 13, face = 0\<rparr>,
      \<lparr>startVert = 2, endVert = 0, pairedHalfedge = 3, face = 0\<rparr>,
      \<lparr>startVert = 0, endVert = 2, pairedHalfedge = 2, face = 1\<rparr>,
      \<lparr>startVert = 2, endVert = 3, pairedHalfedge = 16, face = 1\<rparr>,
      \<lparr>startVert = 3, endVert = 0, pairedHalfedge = 6, face = 1\<rparr>,
      \<lparr>startVert = 0, endVert = 3, pairedHalfedge = 5, face = 2\<rparr>,
      \<lparr>startVert = 3, endVert = 4, pairedHalfedge = 19, face = 2\<rparr>,
      \<lparr>startVert = 4, endVert = 0, pairedHalfedge = 9, face = 2\<rparr>,
      \<lparr>startVert = 0, endVert = 4, pairedHalfedge = 8, face = 3\<rparr>,
      \<lparr>startVert = 4, endVert = 1, pairedHalfedge = 22, face = 3\<rparr>,
      \<lparr>startVert = 1, endVert = 0, pairedHalfedge = 0, face = 3\<rparr>,
      \<lparr>startVert = 5, endVert = 2, pairedHalfedge = 17, face = 4\<rparr>,
      \<lparr>startVert = 2, endVert = 1, pairedHalfedge = 1, face = 4\<rparr>,
      \<lparr>startVert = 1, endVert = 5, pairedHalfedge = 21, face = 4\<rparr>,
      \<lparr>startVert = 5, endVert = 3, pairedHalfedge = 20, face = 5\<rparr>,
      \<lparr>startVert = 3, endVert = 2, pairedHalfedge = 4, face = 5\<rparr>,
      \<lparr>startVert = 2, endVert = 5, pairedHalfedge = 12, face = 5\<rparr>,
      \<lparr>startVert = 5, endVert = 4, pairedHalfedge = 23, face = 6\<rparr>,
      \<lparr>startVert = 4, endVert = 3, pairedHalfedge = 7, face = 6\<rparr>,
      \<lparr>startVert = 3, endVert = 5, pairedHalfedge = 15, face = 6\<rparr>,
      \<lparr>startVert = 5, endVert = 1, pairedHalfedge = 14, face = 7\<rparr>,
      \<lparr>startVert = 1, endVert = 4, pairedHalfedge = 10, face = 7\<rparr>,
      \<lparr>startVert = 4, endVert = 5, pairedHalfedge = 18, face = 7\<rparr>]"
  "halfedgeTangent octa = []"
  "meshRelation octa =
       \<lparr>relOriginalID = 0, numProp = 0, properties = [],
        triRef = [\<lparr>meshID = 0, originalID = 0, refTri = 0\<rparr>,
                  \<lparr>meshID = 0, originalID = 0, refTri = 0\<rparr>,
                  \<lparr>meshID = 0, originalID = 0, refTri = 0\<rparr>,
                  \<lparr>meshID = 0, originalID = 0, refTri = 3\<rparr>,
                  \<lparr>meshID = 0, originalID = 0, refTri = 4\<rparr>,
                  \<lparr>meshID = 0, originalID = 0, refTri = 5\<rparr>,
                  \<lparr>meshID = 0, originalID = 0, refTri = 6\<rparr>,
                  \<lparr>meshID = 0, originalID = 0, refTri = 3\<rparr>],
        triProperties = []\<rparr>"
  by (simp_all add: octa_def)

lemmas ff_defs = neighbors_in_range_def neighbor_in_range_def strip3_def lone_pair_def only_from_def
  matching_neighbor_def num_same_face_def same_face_neighbor_def neighborTri_def SameFace_def
  NumTri_def flat_by_spec_def marked_from_def

lemma FlatFaces_octa:
  "FlatFaces octa = [True, True, True, False, False, False, False, False]"
  by (simp add: FlatFaces_def FlatFaces_tri_def flat_neighbors_def neighbor_step_def mark_step_def
      SameFace_def NumTri_def octa_fields ev cong: evc)

theorem FlatFaces_marks_witness:
  "neighbors_in_range octa \<and> strip3 octa 0 1 2 \<and> lone_pair octa 3 7 \<and>
   rd (FlatFaces octa) 1 = flat_by_spec octa 1 \<and>
   rd (FlatFaces octa) 0 \<and> rd (FlatFaces octa) 1 \<and> rd (FlatFaces octa) 2 \<and>
   \<not> rd (FlatFaces octa) 3 \<and> \<not> rd (FlatFaces octa) 7"
proof -
  have ok: "neighbors_in_range octa"
    by (simp add: ff_defs octa_fields ev)
  have st: "strip3 octa 0 1 2"
    by (simp add: ff_defs octa_fields ev)
  have lp: "lone_pair octa 3 7"
    by (simp add: ff_defs octa_fields ev)
  have nt: "NumTri octa = 8"
    by (simp add: NumTri_def octa_fields tdiv_def)
  show ?thesis
    using FlatFaces_marks [OF ok, of 1 0 1 2 3 7] ok st lp nt by auto
qed

section \<open>Results on Subdivide without insertions\<close>

lemma zip_upto_nth:
  "(i, h) \<in> set (zip [0..int (length hs) - 1] hs) \<longleftrightarrow> (0 \<le> i \<and> i < int (length hs) \<and> h = hs ! nat i)"
proof
  assume "(i, h) \<in> set (zip [0..int (length hs) - 1] hs)"
  then obtain k where k: "k < length hs" "[0..int (length hs) - 1] ! k = i" "hs ! k = h"
    by (auto simp add: in_set_zip)
  then show "0 \<le> i \<and> i < int (length hs) \<and> h = hs ! nat i"
    by (auto simp add: nth_upto)
next
  assume a: "0 \<le> i \<and> i < int (length hs) \<and> h = hs ! nat i"
  then have "nat i < length hs" "[0..int (length hs) - 1] ! nat i = i"
    by (auto simp add: nth_upto)
  then show "(i, h) \<in> set (zip [0..int (length hs) - 1] hs)"
    using a by (auto simp add: in_set_zip intro!: exI [of _ "nat i"])
qed

lemma manifold_ok_halfedge:
  assumes "manifold_ok m" and "0 \<le> i" and "i < int (length (halfedge m))"
  shows "halfedge_ok m (i, rd (halfedge m) i)"
proof -
  have "(i, halfedge m ! nat i) \<in> set (zip [0..int (length (halfedge m)) - 1] (halfedge m))"
    using assms(2,3) by (simp add: zip_upto_nth)
  then show ?thesis
    using assms by (auto simp add: manifold_ok_def list_all_iff rd_def)
qed


lemma manifold_okD:
  assumes "manifold_ok m" and "0 \<le> i" and "i < int (length (halfedge m))"
  shows "0 \<le> startVert (rd (halfedge m) i)" and "startVert (rd (halfedge m) i) < NumVert m"
    and "0 \<le> pairedHalfedge (rd (halfedge m) i)"
    and "pairedHalfedge (rd (halfedge m) i) < int (length (halfedge m))"
    and "pairedHalfedge (rd (halfedge m) (pairedHalfedge (rd (halfedge m) i))) = i"
    and "IsForward (rd (halfedge m) (pairedHalfedge (rd (halfedge m) i))) =
         (\<not> IsForward (rd (halfedge m) i))"
  using manifold_ok_halfedge [OF assms] by (simp_all add: halfedge_ok_def)

text \<open>The forward half-edges, by their indices, and the edges made of them.\<close>

lemma CreateTmpEdges_set:
  "e \<in> set (CreateTmpEdges hs) \<longleftrightarrow>
     (\<exists>i. 0 \<le> i \<and> i < int (length hs) \<and> IsForward (hs ! nat i) \<and> e = tmp_edge (i, hs ! nat i))"
  by (auto simp add: CreateTmpEdges_def forward_entry_def zip_upto_nth image_iff)

lemma halfedgeIdx_tmp_edge: "halfedgeIdx (tmp_edge ih) = fst ih"
  by (simp add: tmp_edge_def)

lemma forward_count:
  "length (CreateTmpEdges hs) = card {i. i < length hs \<and> IsForward (hs ! i)}"
proof -
  have "length (CreateTmpEdges hs) =
      card {i. i < length (zip [0..int (length hs) - 1] hs) \<and>
               forward_entry (zip [0..int (length hs) - 1] hs ! i)}"
    by (simp add: CreateTmpEdges_def length_filter_conv_card)
  also have "{i. i < length (zip [0..int (length hs) - 1] hs) \<and>
               forward_entry (zip [0..int (length hs) - 1] hs ! i)} =
             {i. i < length hs \<and> IsForward (hs ! i)}"
    by (auto simp add: forward_entry_def)
  finally show ?thesis .
qed

lemma two_halfedges_per_edge:
  assumes ok: "manifold_ok m"
  shows "length (halfedge m) = 2 * length (CreateTmpEdges (halfedge m))"
proof -
  let ?hs = "halfedge m"
  let ?F = "{i. i < length ?hs \<and> IsForward (?hs ! i)}"
  let ?B = "{i. i < length ?hs \<and> \<not> IsForward (?hs ! i)}"
  let ?p = "\<lambda>i. nat (pairedHalfedge (?hs ! i))"
  have h: "halfedge_ok m (int i, ?hs ! i)" if "i < length ?hs" for i
    using manifold_ok_halfedge [OF ok, of "int i"] that by (simp add: rd_def)
  have pr: "?p i < length ?hs" "?p (?p i) = i" "IsForward (?hs ! ?p i) = (\<not> IsForward (?hs ! i))"
    if "i < length ?hs" for i
    using h [OF that] by (auto simp add: halfedge_ok_def rd_def)
  have "bij_betw ?p ?F ?B"
  proof (rule bij_betw_byWitness [where f' = ?p])
    show "\<forall>a \<in> ?F. ?p (?p a) = a" using pr(2) by blast
    show "\<forall>a' \<in> ?B. ?p (?p a') = a'" using pr(2) by blast
    show "?p ` ?F \<subseteq> ?B" using pr(1,3) by blast
    show "?p ` ?B \<subseteq> ?F" using pr(1,3) by blast
  qed
  then have "card ?F = card ?B" by (rule bij_betw_same_card)
  moreover have "?F \<union> ?B = {..<length ?hs}" "?F \<inter> ?B = {}" by auto
  then have "card ?F + card ?B = length ?hs"
    using card_Un_disjoint [of ?F ?B] by simp
  ultimately show ?thesis by (simp add: forward_count)
qed

lemma edges_nonempty:
  assumes ok: "manifold_ok m"
  shows "CreateTmpEdges (halfedge m) \<noteq> []"
  using two_halfedges_per_edge [OF ok] ok by (auto simp add: manifold_ok_def)


text \<open>
  \<open>half2Edge\<close>: after the loop over the edges, an entry that one of them wrote holds the
  index of an edge, and every half-edge is written, as the forward one of its edge or as
  the pair of it.
\<close>

lemma rd_wr_eq:
  "0 \<le> i \<Longrightarrow> i < int (length xs) \<Longrightarrow> rd (wr xs i v) k = (if k = i then v else rd xs k)"
  by (auto simp add: rd_def wr_def)

lemma length_wr_eq: "0 \<le> i \<Longrightarrow> i < int (length xs) \<Longrightarrow> length (wr xs i v) = length xs"
  by (simp add: wr_def)

lemma ReindexHalfedge_fold:
  assumes "\<forall>ke \<in> set kes. \<forall>h. writes_to m ke h \<longrightarrow> 0 \<le> h \<and> h < int (length hl)"
  shows "length (fold (ReindexHalfedge m) kes hl) = length hl \<and>
         (\<forall>h. rd (fold (ReindexHalfedge m) kes hl) h \<in> fst ` set kes \<or>
              ((\<forall>ke \<in> set kes. \<not> writes_to m ke h) \<and>
               rd (fold (ReindexHalfedge m) kes hl) h = rd hl h))"
  using assms
proof (induction kes arbitrary: hl)
  case Nil
  then show ?case by simp
next
  case (Cons ke kes)
  let ?a = "halfedgeIdx (snd ke)"
  let ?b = "pairedHalfedge (rd (halfedge m) ?a)"
  let ?hl = "wr (wr hl ?a (fst ke)) ?b (fst ke)"
  have a: "0 \<le> ?a" "?a < int (length hl)" and b: "0 \<le> ?b" "?b < int (length hl)"
    using Cons.prems by (simp_all add: writes_to_def)
  have len: "length ?hl = length hl"
    using a b by (simp add: length_wr_eq)
  have val: "rd ?hl h = (if h = ?b \<or> h = ?a then fst ke else rd hl h)" for h
    using a b by (simp add: rd_wr_eq length_wr_eq)
  have "\<forall>ke \<in> set kes. \<forall>h. writes_to m ke h \<longrightarrow> 0 \<le> h \<and> h < int (length ?hl)"
    using Cons.prems len by simp
  note ih = Cons.IH [OF this]
  have step: "fold (ReindexHalfedge m) (ke # kes) hl = fold (ReindexHalfedge m) kes ?hl"
    by (simp add: ReindexHalfedge_def)
  have l: "length (fold (ReindexHalfedge m) kes ?hl) = length hl"
    using ih len by simp
  have v: "rd (fold (ReindexHalfedge m) kes ?hl) h \<in> fst ` set (ke # kes) \<or>
           ((\<forall>ke' \<in> set (ke # kes). \<not> writes_to m ke' h) \<and>
            rd (fold (ReindexHalfedge m) kes ?hl) h = rd hl h)" for h
  proof (cases "rd (fold (ReindexHalfedge m) kes ?hl) h \<in> fst ` set kes")
    case True
    then show ?thesis by simp
  next
    case False
    then have nw: "\<forall>ke' \<in> set kes. \<not> writes_to m ke' h"
      and same: "rd (fold (ReindexHalfedge m) kes ?hl) h = rd ?hl h"
      using ih by blast+
    show ?thesis
    proof (cases "writes_to m ke h")
      case True
      then have "rd ?hl h = fst ke" using val [of h] by (auto simp add: writes_to_def)
      then show ?thesis using same by simp
    next
      case False
      then have "rd ?hl h = rd hl h" using val [of h] by (auto simp add: writes_to_def)
      then show ?thesis using same nw False by simp
    qed
  qed
  show ?case
    unfolding step using l v by blast
qed

lemma zip_upto_fst:
  "fst ` set (zip [0..int (length es) - 1] es) = {k. 0 \<le> k \<and> k < int (length es)}"
proof -
  have "\<And>k. 0 \<le> k \<Longrightarrow> k < int (length es) \<Longrightarrow>
      k \<in> fst ` set (zip [0..int (length es) - 1] es)"
    using zip_upto_nth [of _ _ es] by (metis fst_conv image_iff)
  then show ?thesis by (auto simp add: zip_upto_nth)
qed

lemma zip_upto_snd:
  "e \<in> set es \<Longrightarrow> \<exists>k. (k, e) \<in> set (zip [0..int (length es) - 1] es)"
  by (metis in_set_conv_nth zip_upto_nth nat_int of_nat_0_le_iff of_nat_less_iff)

lemma half2Edge_in_range:
  assumes ok: "manifold_ok m" and h: "0 \<le> h" "h < int (length (halfedge m))"
  shows "0 \<le> rd (half2Edge_of m (CreateTmpEdges (halfedge m))) h \<and>
         rd (half2Edge_of m (CreateTmpEdges (halfedge m))) h
           < int (length (CreateTmpEdges (halfedge m)))"
proof -
  let ?hs = "halfedge m"
  let ?es = "CreateTmpEdges ?hs"
  let ?kes = "zip [0..int (length ?es) - 1] ?es"
  let ?hl = "replicate (2 * length ?es) (undefined :: int)"
  have len: "int (length ?hl) = int (length ?hs)"
    using two_halfedges_per_edge [OF ok] by simp
  have rng: "\<forall>ke \<in> set ?kes. \<forall>h. writes_to m ke h \<longrightarrow> 0 \<le> h \<and> h < int (length ?hl)"
  proof (intro ballI allI impI)
    fix ke h' assume ke: "ke \<in> set ?kes" and w: "writes_to m ke h'"
    have "snd ke \<in> set ?es" using ke by (metis in_set_zipE prod.collapse)
    then obtain i where i: "0 \<le> i" "i < int (length ?hs)" "snd ke = tmp_edge (i, ?hs ! nat i)"
      by (auto simp add: CreateTmpEdges_set)
    have "halfedge_ok m (i, rd ?hs i)" using manifold_ok_halfedge [OF ok i(1,2)] .
    then show "0 \<le> h' \<and> h' < int (length ?hl)"
      using w i len by (auto simp add: writes_to_def halfedgeIdx_tmp_edge halfedge_ok_def)
  qed
  note fold = ReindexHalfedge_fold [OF rng]
  have edge_written: "\<exists>ke \<in> set ?kes. writes_to m ke h'"
    if i: "0 \<le> i" "i < int (length ?hs)" "IsForward (?hs ! nat i)"
      and w: "h' = i \<or> h' = pairedHalfedge (rd ?hs i)" for i h'
  proof -
    have "tmp_edge (i, ?hs ! nat i) \<in> set ?es"
      unfolding CreateTmpEdges_set using i by blast
    then obtain k where k: "(k, tmp_edge (i, ?hs ! nat i)) \<in> set ?kes"
      by (rule zip_upto_snd [THEN exE])
    have "writes_to m (k, tmp_edge (i, ?hs ! nat i)) h'"
      using w by (simp add: writes_to_def halfedgeIdx_tmp_edge)
    then show ?thesis using k by (rule_tac bexI)
  qed
  have written: "\<exists>ke \<in> set ?kes. writes_to m ke h"
  proof (cases "IsForward (?hs ! nat h)")
    case True
    then show ?thesis using edge_written [of h h] h by simp
  next
    case False
    let ?p = "pairedHalfedge (rd ?hs h)"
    have nf: "\<not> IsForward (rd ?hs h)" using False h by (simp add: rd_def)
    have p: "0 \<le> ?p" "?p < int (length ?hs)" "pairedHalfedge (rd ?hs ?p) = h"
      "IsForward (rd ?hs ?p)"
      using manifold_okD [OF ok h] nf by simp_all
    then have "IsForward (?hs ! nat ?p)" by (simp add: rd_def)
    then show ?thesis using edge_written [of ?p h] p by simp
  qed
  have "rd (fold (ReindexHalfedge m) ?kes ?hl) h \<in> fst ` set ?kes"
    using fold written by blast
  then show ?thesis
    by (simp add: half2Edge_of_def zip_upto_fst)
qed


text \<open>With no insertions every edge adds nothing and every triangle has the partition of \<open>(1, 1, 1)\<close>.\<close>

lemma exclusive_scan_zero: "exclusive_scan (replicate n 0) a = replicate n a"
  by (induction n) simp_all

lemma exclusive_scan_one: "exclusive_scan (replicate n 1) a = map (\<lambda>k. a + int k) [0..<n]"
proof (induction n arbitrary: a)
  case 0
  then show ?case by simp
next
  case (Suc n)
  have "map (\<lambda>k. a + int k) [0..<Suc n] = a # map (\<lambda>k. a + 1 + int k) [0..<n]"
    by (simp add: upt_conv_Cons map_Suc_upt [symmetric] del: upt_Suc)
  then show ?case using Suc.IH [of "a + 1"] by simp
qed

lemma vec_back_replicate: "0 < n \<Longrightarrow> vec_back (replicate n a) = Inr a"
  by (simp add: vec_back_def)

lemma GetPartition_111:
  "GetPartition (1, 1, 1) =
     Inr \<lparr>idx = (0, 1, 2), sortedDivisions = (1, 1, 1),
          vertBary = [(1, 0, 0), (0, 1, 0), (0, 0, 1)], triVert = [(0, 1, 2)]\<rparr>"
  by (simp add: GetPartition_def GetCachedPartition_def sort_divisions_def set_idx_def
      mk_partition_def edge_barys_def edge_bary_edge_def bnd_def Let_def)

lemma Reindex_111:
  "Reindex \<lparr>idx = (0, 1, 2), sortedDivisions = (1, 1, 1),
            vertBary = [(1, 0, 0), (0, 1, 0), (0, 0, 1)], triVert = [(0, 1, 2)]\<rparr>
     (a, b, c) edgeOffsets edgeFwd interiorOffset = Inr [(a, b, c)]"
  by (simp add: Reindex_def Reindex_newVerts_def edge_verts_def reindex_tri_def reindex_slot_def
      vat_def bnd_def Next3_def Let_def)

lemma mapE_const: "\<forall>x \<in> set xs. f x = Inr y \<Longrightarrow> mapE f xs = Inr (map (\<lambda>x. y) xs)"
  by (induction xs) (simp_all add: bnd_def)

lemma foldE_append: "foldE f (xs @ ys) s = bnd (foldE f xs s) (foldE f ys)"
  by (induction xs arbitrary: s) (simp_all add: bnd_def split: sum.splits)

lemma foldE_returns:
  "\<forall>x \<in> set xs. \<forall>s. \<exists>s'. f x s = Inr s' \<Longrightarrow> \<exists>s'. foldE f xs s = Inr s'"
proof (induction xs arbitrary: s)
  case Nil
  then show ?case by simp
next
  case (Cons x xs)
  then obtain s1 where "f x s = Inr s1" by (meson list.set_intros(1))
  then show ?case using Cons by (simp add: bnd_def)
qed

lemma upto_snoc: "0 \<le> k \<Longrightarrow> [0..k] = [0..k - 1] @ [k]"
  using upto_rec2 [of 0 k] by simp


lemma NumTri_times3:
  assumes "manifold_ok m"
  shows "int (length (halfedge m)) = 3 * NumTri m" and "0 < NumTri m"
proof -
  have a: "tmod (int (length (halfedge m))) 3 = 0" and b: "halfedge m \<noteq> []"
    using assms by (simp_all add: manifold_ok_def)
  show "int (length (halfedge m)) = 3 * NumTri m"
    using a by (simp add: tmod_def NumTri_def)
  then show "0 < NumTri m" using b by (cases "halfedge m") auto
qed

lemma FillRetainedVerts_length:
  assumes ok: "manifold_ok m" and len: "int (length vb) = NumVert m"
  shows "length (FillRetainedVerts m vb) = length vb"
proof -
  have step: "length (retain_tri m t vb') = length vb'"
    if "0 \<le> t" "t < NumTri m" "int (length vb') = NumVert m" for t vb'
  proof -
    have r: "0 \<le> startVert (rd (halfedge m) (3 * t + i)) \<and>
             startVert (rd (halfedge m) (3 * t + i)) < int (length vb')"
      if "0 \<le> i" "i < 3" for i
      using manifold_okD(1,2) [OF ok, of "3 * t + i"] NumTri_times3(1) [OF ok] that
        \<open>0 \<le> t\<close> \<open>t < NumTri m\<close> \<open>int (length vb') = NumVert m\<close> by simp
    show ?thesis
      using r [of 0] r [of 1] r [of 2]
      by (simp add: retain_tri_def retain_step_def length_wr_eq)
  qed
  have "length (fold (retain_tri m) ts vb') = length vb'"
    if "\<forall>t \<in> set ts. 0 \<le> t \<and> t < NumTri m" "int (length vb') = NumVert m" for ts vb'
    using that
  proof (induction ts arbitrary: vb')
    case Nil
    then show ?case by simp
  next
    case (Cons t ts)
    have l: "length (retain_tri m t vb') = length vb'"
      using step [of t vb'] Cons.prems by simp
    then show ?case using Cons.IH [of "retain_tri m t vb'"] Cons.prems by simp
  qed
  then show ?thesis
    using len by (simp add: FillRetainedVerts_def NumTri_def)
qed

lemma edge_bary_none:
  "\<forall>x \<in> set xs. fst (snd x) = 0 \<Longrightarrow> fold edge_bary xs vb = vb"
  by (induction xs arbitrary: vb) (auto simp add: edge_bary_def)

text \<open>The loop that welds the partitions, when each is the single triangle.\<close>

lemma weld_tri_111:
  assumes t: "0 \<le> t" "t < int n" and len: "length tv = n" "length tr = n"
  shows "weld_tri m (map (\<lambda>x. p111) [0..int n - 1]) edgeOffset half2Edge
           (map int [0..<n]) interiorOffset t (tv, tr, vb) =
         Inr (wr tv t (tri_corners m t), wr tr t (rd (triRef (meshRelation m)) t), vb)"
proof -
  have sub: "map (\<lambda>x. p111) [0..int n - 1] ! nat t = p111"
    using t by simp
  have off: "rd (map int [0..<n]) t = t"
    using t by (simp add: rd_def)
  have re: "Reindex p111 (tri_corners m t) eo ef io = Inr [tri_corners m t]" for eo ef io
    unfolding p111_def tri_corners_def by (rule Reindex_111)
  show ?thesis
    unfolding weld_tri_def sub re off
    by (simp add: bnd_def weld_put_def copy_to_def copy_put_def p111_def InteriorOffset_def)
qed

lemma wr_next:
  assumes "length xs = k" and "k < length ys"
  shows "wr (xs @ drop k ys) (int k) x = xs @ x # drop (Suc k) ys"
proof -
  have d: "drop k ys = ys ! k # drop (Suc k) ys"
    using assms(2) by (simp add: Cons_nth_drop_Suc)
  have "(xs @ drop k ys)[k := x] = xs @ (drop k ys)[0 := x]"
    using assms(1) by (simp add: list_update_append)
  also have "\<dots> = xs @ x # drop (Suc k) ys" by (subst d) simp
  finally show ?thesis using assms by (simp add: wr_def)
qed

lemma weld_fold_111:
  assumes "k \<le> n" and "length tv = n" and "length tr = n"
  shows "foldE (weld_tri m (map (\<lambda>x. p111) [0..int n - 1]) edgeOffset half2Edge
                  (map int [0..<n]) interiorOffset)
           [0..int k - 1] (tv, tr, vb) =
         Inr (map (tri_corners m) [0..int k - 1] @ drop k tv,
              map (rd (triRef (meshRelation m))) [0..int k - 1] @ drop k tr, vb)"
  using assms
proof (induction k)
  case 0
  then show ?case by simp
next
  case (Suc k)
  have up: "[0..int (Suc k) - 1] = [0..int k - 1] @ [int k]"
    using upto_snoc [of "int k"] by simp
  let ?tv = "map (tri_corners m) [0..int k - 1] @ drop k tv"
  let ?tr = "map (rd (triRef (meshRelation m))) [0..int k - 1] @ drop k tr"
  have l: "length ?tv = n" "length ?tr = n" using Suc.prems by simp_all
  have kn: "0 \<le> int k" "int k < int n" using Suc.prems by simp_all
  have w1: "wr ?tv (int k) x = map (tri_corners m) [0..int k - 1] @ x # drop (Suc k) tv" for x
    using Suc.prems by (intro wr_next) simp_all
  have w2: "wr ?tr (int k) x =
      map (rd (triRef (meshRelation m))) [0..int k - 1] @ x # drop (Suc k) tr" for x
    using Suc.prems by (intro wr_next) simp_all
  show ?case
    unfolding up foldE_append
    using Suc.IH Suc.prems weld_tri_111 [OF kn l, of m edgeOffset half2Edge interiorOffset vb]
    by (simp add: bnd_def w1 w2)
qed


lemma Reindex_p111: "Reindex p111 tri3 edgeOffsets edgeFwd interiorOffset = Inr [tri3]"
  unfolding p111_def by (cases tri3) (simp add: Reindex_111)

lemma Subdivide_props_111:
  assumes n: "NumTri m = int (length ts)"
  shows "\<exists>r. Subdivide_props m edges edgeAdded edgeOffset half2Edge (map (\<lambda>x. p111) ts) triOffset
          interiorOffset vb totalEdgeAdded k = Inr r"
proof (cases "numProp (meshRelation m) > 0")
  case False
  then show ?thesis by (simp add: Subdivide_props_def)
next
  case True
  have one: "\<exists>s'. prop_tri m subTris edgeOffset half2Edge triOffset interiorOffset po av t s = Inr s'"
    if "subTris ! nat t = p111" for subTris po av t s
    using that by (simp add: prop_tri_def Let_def Reindex_p111 bnd_def prop_put_tris_def)
  have nth: "map (\<lambda>x. p111) ts ! nat t = p111" if "t \<in> set [0..NumTri m - 1]" for t
  proof -
    have "nat t < length ts" using that n by auto
    then show ?thesis by (rule nth_map)
  qed
  have "\<forall>t \<in> set [0..NumTri m - 1]. \<forall>s. \<exists>s'.
      prop_tri m (map (\<lambda>x. p111) ts) edgeOffset half2Edge triOffset interiorOffset po av t s = Inr s'"
    for po av using one nth by blast
  from foldE_returns [OF this]
  obtain tp where "foldE (prop_tri m (map (\<lambda>x. p111) ts) edgeOffset half2Edge triOffset
      interiorOffset (NumPropVert m - NumVert m) (int (length vb) - NumVert m))
      [0..NumTri m - 1] (replicate k undefined) = Inr tp"
    by blast
  then show ?thesis
    using True by (simp add: Subdivide_props_def Let_def bnd_def)
qed


lemma Subdivide_weld_111:
  assumes n: "NumTri m = int n" "0 < n" and vb: "int (length vb) = NumVert m"
  shows "\<exists>m'. Subdivide_weld m edges edgeAdded edgeOffset half2Edge vb tot
                (map (\<lambda>x. p111) [0..int n - 1]) =
              Inr (vb, map (tri_corners m) [0..NumTri m - 1], m') \<and>
              length (vertPos m') = length vb"
proof -
  let ?sub = "map (\<lambda>x. p111) [0..int n - 1]"
  have ns: "map numSubTris ?sub = replicate n 1"
    by (simp add: numSubTris_def p111_def map_replicate_const)
  have ni: "map NumInterior ?sub = replicate n 0"
    by (simp add: NumInterior_def InteriorOffset_def p111_def map_replicate_const)
  have lst: "last ?sub = p111" using n(2) by (simp add: last_map)
  have to: "exclusive_scan (map numSubTris ?sub) 0 = map int [0..<n]"
    unfolding ns using exclusive_scan_one [of n 0] by simp
  have io: "exclusive_scan (map NumInterior ?sub) (int (length vb)) = replicate n (int (length vb))"
    unfolding ni by (rule exclusive_scan_zero)
  have b1: "vec_back (map int [0..<n]) = Inr (int n - 1)"
    using n(2) by (simp add: vec_back_def last_map of_nat_diff)
  have b2: "vec_back (replicate n (int (length vb))) = Inr (int (length vb))"
    using n(2) by (rule vec_back_replicate)
  have cnt: "nat (int n - 1 + numSubTris p111) = n"
    by (simp add: numSubTris_def p111_def)
  have rs: "resize vb (nat (int (length vb) + NumInterior p111)) = vb"
    by (simp add: resize_def NumInterior_def InteriorOffset_def p111_def)
  have fold: "foldE (weld_tri m ?sub edgeOffset half2Edge (map int [0..<n])
                      (replicate n (int (length vb))))
                [0..NumTri m - 1] (replicate n undefined, replicate n undefined, vb) =
              Inr (map (tri_corners m) [0..NumTri m - 1],
                   map (rd (triRef (meshRelation m))) [0..NumTri m - 1], vb)"
    using weld_fold_111 [of n n "replicate n undefined" "replicate n undefined" m edgeOffset
        half2Edge "replicate n (int (length vb))" vb] n(1) by simp
  obtain r where r: "Subdivide_props m edges edgeAdded edgeOffset half2Edge ?sub
      (map int [0..<n]) (replicate n (int (length vb))) vb tot n = Inr r"
  proof -
    have "NumTri m = int (length [0..int n - 1])" using n(1) by simp
    from Subdivide_props_111 [OF this] show ?thesis using that by blast
  qed
  show ?thesis
    unfolding Subdivide_weld_def Let_def to io lst
    by (simp add: bnd_def b1 b2 cnt rs fold r Subdivide_finish_def del: upto.simps)
qed


lemma Subdivide_core_no_insertions:
  assumes ok: "manifold_ok m" and none: "\<forall>v. edgeDivisions v = 0"
  shows "\<exists>vb m'. Subdivide_core m edgeDivisions =
                   Inr (vb, map (tri_corners m) [0..NumTri m - 1], m') \<and>
                 length vb = length (vertPos m) \<and> length (vertPos m') = length (vertPos m)"
proof -
  let ?es = "CreateTmpEdges (halfedge m)"
  let ?E = "length ?es"
  let ?h2e = "half2Edge_of m ?es"
  let ?vb = "FillRetainedVerts m (replicate (nat (NumVert m)) undefined)"
  have E: "0 < ?E" using edges_nonempty [OF ok] by simp
  have "edge_divisions m edgeDivisions = (\<lambda>e. 0)"
    unfolding edge_divisions_def using none by blast
  then have ea: "map (edge_divisions m edgeDivisions) ?es = replicate ?E 0"
    by (simp add: map_replicate_const)
  have eo: "exclusive_scan (replicate ?E 0) (NumVert m) = replicate ?E (NumVert m)"
    by (rule exclusive_scan_zero)
  have b1: "vec_back (replicate ?E (NumVert m)) = Inr (NumVert m)"
    and b2: "vec_back (replicate ?E (0 :: int)) = Inr 0"
    using E by (simp_all add: vec_back_replicate)
  have nv: "0 \<le> NumVert m" by (simp add: NumVert_def)
  have lvb: "length ?vb = length (vertPos m)"
    using FillRetainedVerts_length [OF ok, of "replicate (nat (NumVert m)) undefined"] nv
    by (simp add: NumVert_def)
  have eb: "fold edge_bary (zip ?es (replicate ?E (0, NumVert m))) ?vb = ?vb"
    by (rule edge_bary_none) (auto simp add: in_set_zip)
  define n where "n = nat (NumTri m)"
  have n: "NumTri m = int n" "0 < n"
    using NumTri_times3(2) [OF ok] by (simp_all add: n_def)
  have parts: "mapE (tri_partition ?h2e (replicate ?E 0)) [0..NumTri m - 1] =
      Inr (map (\<lambda>x. p111) [0..int n - 1])"
  proof -
    have "tri_partition ?h2e (replicate ?E 0) t = Inr p111" if "t \<in> set [0..NumTri m - 1]" for t
    proof -
      have t: "0 \<le> t" "t < NumTri m" using that by simp_all
      have r: "rd (replicate ?E (0 :: int)) (rd ?h2e (3 * t + j)) = 0" if "0 \<le> j" "j < 3" for j
      proof -
        have "0 \<le> 3 * t + j" "3 * t + j < int (length (halfedge m))"
          using t that NumTri_times3(1) [OF ok] by simp_all
        from half2Edge_in_range [OF ok this] show ?thesis by (simp add: rd_replicate)
      qed
      show ?thesis
        using r [of 0] r [of 1] r [of 2]
        by (simp add: tri_partition_def tri_divisions_def GetPartition_111 p111_def)
    qed
    then have "\<forall>t \<in> set [0..NumTri m - 1]. tri_partition ?h2e (replicate ?E 0) t = Inr p111"
      by blast
    from mapE_const [OF this] show ?thesis using n(1) by simp
  qed
  have lv: "int (length ?vb) = NumVert m" using lvb by (simp add: NumVert_def)
  obtain m' where w: "Subdivide_weld m ?es (replicate ?E 0) (replicate ?E (NumVert m)) ?h2e ?vb 0
      (map (\<lambda>x. p111) [0..int n - 1]) = Inr (?vb, map (tri_corners m) [0..NumTri m - 1], m')"
    and lm: "length (vertPos m') = length ?vb"
    using Subdivide_weld_111 [OF n lv] by blast
  have "Subdivide_core m edgeDivisions = Inr (?vb, map (tri_corners m) [0..NumTri m - 1], m')"
    unfolding Subdivide_core_def Let_def ea eo
    by (simp add: bnd_def b1 b2 eb parts w del: upto.simps)
  moreover have "length (vertPos m') = length (vertPos m)" using lvb lm by simp
  ultimately show ?thesis using lvb by (intro exI conjI)
qed

text \<open>
  C1, as the code has it. On a mesh with at least one triangle, whose half-edges come
  three per triangle, start at vertices of the mesh and are paired by an involution that
  flips the direction, \<open>Subdivide\<close> with an \<open>edgeDivisions\<close> that is 0 everywhere returns:
  the triangles it hands to \<open>CreateHalfedges\<close> are the vertex triples of the input
  triangles, one for one and in their order, and the number of vertices is the same.
\<close>

theorem Subdivide_no_insertions:
  assumes "manifold_ok m" and "\<forall>v. edgeDivisions v = 0"
  shows "\<exists>vb m'. Subdivide ext m edgeDivisions =
                   Inr (vb, CreateHalfedges ext (map (tri_corners m) [0..NumTri m - 1]) m') \<and>
                 length vb = length (vertPos m) \<and> length (vertPos m') = length (vertPos m) \<and>
                 int (length (map (tri_corners m) [0..NumTri m - 1])) = NumTri m"
proof -
  obtain vb m' where c: "Subdivide_core m edgeDivisions =
      Inr (vb, map (tri_corners m) [0..NumTri m - 1], m')"
    and l: "length vb = length (vertPos m)" "length (vertPos m') = length (vertPos m)"
    using Subdivide_core_no_insertions [OF assms] by blast
  have s: "Subdivide ext m edgeDivisions =
      Inr (vb, CreateHalfedges ext (map (tri_corners m) [0..NumTri m - 1]) m')"
    by (simp add: Subdivide_def c bnd_def Subdivide_halfedges_def)
  have "int (length (map (tri_corners m) [0..NumTri m - 1])) = NumTri m"
    using NumTri_times3(2) [OF assms(1)] by simp
  then show ?thesis using s l by (intro exI conjI)
qed

theorem Subdivide_no_insertions_witness:
  "manifold_ok corner_tet \<and> (\<forall>v. no_divisions v = 0) \<and>
   (\<exists>vb m'. Subdivide idle_externals corner_tet no_divisions =
              Inr (vb, CreateHalfedges idle_externals [(0, 2, 1), (0, 1, 3), (0, 3, 2), (1, 2, 3)] m') \<and>
            length vb = 4 \<and> length (vertPos m') = 4)"
proof -
  have ok: "manifold_ok corner_tet"
    by (simp add: manifold_ok_def halfedge_ok_def IsForward_def NumVert_def corner_tet_fields ev)
  have none: "\<forall>v. no_divisions v = 0" by (simp add: no_divisions_def)
  have tris: "map (tri_corners corner_tet) [0..NumTri corner_tet - 1] =
      [(0, 2, 1), (0, 1, 3), (0, 3, 2), (1, 2, 3)]"
    by (simp add: tri_corners_def NumTri_def corner_tet_fields ev)
  have len: "length (vertPos corner_tet) = 4" by (simp add: corner_tet_fields)
  have "\<exists>vb m'. Subdivide idle_externals corner_tet no_divisions =
              Inr (vb, CreateHalfedges idle_externals [(0, 2, 1), (0, 1, 3), (0, 3, 2), (1, 2, 3)] m') \<and>
            length vb = 4 \<and> length (vertPos m') = 4"
    using Subdivide_no_insertions [OF ok none, of idle_externals]
    unfolding tris len by blast
  then show ?thesis using ok none by blast
qed

text \<open>
  On the mesh with no half-edges there is no edge, and \<open>Subdivide\<close> takes
  \<open>edgeOffset.back()\<close> of an empty vector, whatever \<open>edgeDivisions\<close> is.
\<close>

theorem Subdivide_no_insertions_empty:
  "Subdivide idle_externals empty_mesh no_divisions = Inl OutOfRange"
  by (simp add: Subdivide_def Subdivide_core_def CreateTmpEdges_def empty_mesh_def vec_back_def
      bnd_def Let_def)

section \<open>Results on the recursion of PartitionQuad\<close>
































section \<open>Results on GetPartition\<close>


















end
